theory Spec2Isabelle
  imports Complex_Main "HOL-Library.Multiset"
begin

section \<open>Python strings, exceptions and ranges\<close>

text \<open>
  A Python \<open>str\<close> is a sequence of Unicode code points: \<open>len\<close> counts code points and
  \<open>set(text)\<close> is a set of code points. It is modelled as a list of natural numbers,
  one per code point. The literals of the source that are not ASCII are written out as
  code points (hexadecimal), with the source text transliterated in the comment.

  An exception is represented by its message \<open>str(e)\<close>: the handlers of the source
  look at nothing else. A computation that may raise returns \<open>exn + 'a\<close>, with
  \<open>Inl\<close> for the exception.
\<close>

type_synonym ustring = "nat list"
type_synonym exn = ustring

definition asc :: "string \<Rightarrow> ustring" where
  \<comment> \<open>an ASCII literal of the source as code points\<close>
  "asc s = map of_char s"

fun startswith :: "ustring \<Rightarrow> ustring \<Rightarrow> bool" where
  \<comment> \<open>\<open>text.startswith(p)\<close>\<close>
  "startswith text [] = True"
| "startswith [] (p # ps) = False"
| "startswith (c # cs) (p # ps) = (c = p \<and> startswith cs ps)"

fun py_in :: "ustring \<Rightarrow> ustring \<Rightarrow> bool" where
  \<comment> \<open>\<open>needle in text\<close>: substring test\<close>
  "py_in needle [] = (needle = [])"
| "py_in needle (c # cs) = (startswith (c # cs) needle \<or> py_in needle cs)"

definition lower_char :: "nat \<Rightarrow> ustring" where
  \<comment> \<open>the lower case of the code points whose lower case has an ASCII letter: \<open>A\<close>..\<open>Z\<close>,
      the Kelvin sign (to \<open>k\<close>) and the capital I with a dot above (to \<open>i\<close> and a
      combining dot)\<close>
  "lower_char c =
     (if 65 \<le> c \<and> c \<le> 90 then [c + 32]
      else if c = 0x212A then [107]
      else if c = 0x130 then [105, 0x307]
      else [c])"

definition lower :: "ustring \<Rightarrow> ustring" where
  \<comment> \<open>\<open>text.lower()\<close>, as far as ASCII is concerned: every other cased letter is left
      as it is, its lower case being outside ASCII as well. The source uses
      \<open>lower\<close> only in tests \<open>needle in text.lower()\<close> with an ASCII needle, which
      this leaves as they are.\<close>
  "lower text = concat (map lower_char text)"

definition isspace :: "nat \<Rightarrow> bool" where
  \<comment> \<open>the code points that \<open>str.strip()\<close> removes (Unicode white space)\<close>
  "isspace c = ((9 \<le> c \<and> c \<le> 13) \<or> (28 \<le> c \<and> c \<le> 32) \<or> c = 0x85 \<or> c = 0xA0
      \<or> c = 0x1680 \<or> (0x2000 \<le> c \<and> c \<le> 0x200A) \<or> c = 0x2028 \<or> c = 0x2029
      \<or> c = 0x202F \<or> c = 0x205F \<or> c = 0x3000)"

definition upper :: "ustring \<Rightarrow> ustring" where
  \<comment> \<open>\<open>text.upper()\<close> on the ASCII letters \<open>a\<close>..\<open>z\<close>\<close>
  "upper text = map (\<lambda>c. if 97 \<le> c \<and> c \<le> 122 then c - 32 else c) text"

definition strip :: "ustring \<Rightarrow> ustring" where
  \<comment> \<open>\<open>text.strip()\<close>\<close>
  "strip text = rev (dropWhile isspace (rev (dropWhile isspace text)))"

fun digits_fuel :: "nat \<Rightarrow> nat \<Rightarrow> ustring" where
  \<comment> \<open>the decimal digits of \<open>n\<close>, most significant first; the fuel bounds the number
      of digits\<close>
  "digits_fuel 0 n = []"
| "digits_fuel (Suc k) n =
     (if n < 10 then [48 + n] else digits_fuel k (n div 10) @ [48 + n mod 10])"

definition str_nat :: "nat \<Rightarrow> ustring" where
  \<comment> \<open>\<open>str(n)\<close>, as an f-string prints a non-negative \<open>int\<close>; \<open>n\<close> has at most
      \<open>n + 1\<close> digits\<close>
  "str_nat n = digits_fuel (Suc n) n"

function range_up :: "int \<Rightarrow> int \<Rightarrow> int \<Rightarrow> int list" where
  "range_up i stop step =
     (if 0 < step \<and> i < stop then i # range_up (i + step) stop step else [])"
  by pat_completeness auto
termination
  by (relation "measure (\<lambda>(i, stop, step). nat (stop - i))") auto

function range_down :: "int \<Rightarrow> int \<Rightarrow> int \<Rightarrow> int list" where
  "range_down i stop step =
     (if step < 0 \<and> stop < i then i # range_down (i + step) stop step else [])"
  by pat_completeness auto
termination
  by (relation "measure (\<lambda>(i, stop, step). nat (i - stop))") auto

declare range_up.simps [simp del]
declare range_down.simps [simp del]

definition range_zero_step :: exn where
  \<comment> \<open>the message of the \<open>ValueError\<close> of \<open>range\<close>\<close>
  "range_zero_step = asc ''range() arg 3 must not be zero''"

definition py_range :: "int \<Rightarrow> int \<Rightarrow> int \<Rightarrow> exn + int list" where
  \<comment> \<open>\<open>list(range(start, stop, step))\<close>\<close>
  "py_range start stop step =
     (if step = 0 then Inl range_zero_step
      else if 0 < step then Inr (range_up start stop step)
      else Inr (range_down start stop step))"

section \<open>Segmentation of an audio stream\<close>

text \<open>
  Both pipeline files cut the decoded audio the same way:
  \<^verbatim>\<open>
  chunk_duration_ms = int(max_chunk_duration * 1000)
  for i in range(0, len(audio_segment), chunk_duration_ms):
      chunk = audio_segment[i:i + chunk_duration_ms]
  \<close>
  The audio is modelled by its length in milliseconds (\<open>len(audio_segment)\<close>), and a
  chunk by its time window: the start offset and the duration, both in milliseconds.
  \<open>max_chunk_duration\<close> is the integer number of seconds of the slider. A slice of an
  audio segment clamps both bounds to the length of the audio.
\<close>

record chunk =
  start_ms :: int
  duration_ms :: int

definition slice :: "int \<Rightarrow> int \<Rightarrow> int \<Rightarrow> chunk" where
  \<comment> \<open>\<open>audio_segment[a:b]\<close> for an audio of \<open>len_ms\<close> milliseconds\<close>
  "slice len_ms a b =
     \<lparr>start_ms = min a len_ms, duration_ms = min b len_ms - min a len_ms\<rparr>"

definition segment :: "int \<Rightarrow> int \<Rightarrow> exn + chunk list" where
  "segment len_ms max_chunk_duration =
     (let chunk_duration_ms = max_chunk_duration * 1000 in
      case py_range 0 len_ms chunk_duration_ms of
        Inl e \<Rightarrow> Inl e
      | Inr starts \<Rightarrow> Inr (map (\<lambda>i. slice len_ms i (i + chunk_duration_ms)) starts))"

section \<open>The outside world of one uploaded file\<close>

text \<open>
  The pipeline calls external tools and services: \<open>ffprobe\<close>, \<open>ffmpeg\<close>, the audio
  decoder, the speech recognizer and the generative model. What they return while one
  uploaded file is processed is the \<open>world\<close> of that file: the model is a function of
  it, and every theorem holds for every world. A call that may raise returns the
  exception (its message) on the left.

  Writing the upload into the temporary directory, creating a temporary file,
  \<open>os.path.getsize\<close> on a file that was just written and \<open>os.unlink\<close> (which the source
  wraps in \<open>try\<close>/\<open>except: pass\<close>) are taken not to raise.
\<close>

datatype audio_file =
    Original        \<comment> \<open>the uploaded file, \<open>audio_path\<close> / \<open>temp_path\<close>\<close>
  | ConvertedWav    \<comment> \<open>the file \<open>ffmpeg\<close> writes for the target \<open>wav\<close>\<close>
  | ConvertedM4a    \<comment> \<open>the file \<open>ffmpeg\<close> writes for the target \<open>m4a\<close>\<close>

datatype ffprobe_streams =
    StreamsRaised                 \<comment> \<open>\<open>ffprobe\<close> timed out or its output did not parse\<close>
  | NoStreams                     \<comment> \<open>\<open>data.get('streams', [])\<close> is empty\<close>
  | FirstStream ustring int       \<comment> \<open>\<open>codec_name\<close> and \<open>sample_rate\<close> of \<open>streams[0]\<close>\<close>

datatype pyfloat =
    Finite rat                    \<comment> \<open>a finite \<open>float\<close>, as a rational number\<close>
  | NotFinite                     \<comment> \<open>\<open>inf\<close>, \<open>-inf\<close> or \<open>nan\<close>\<close>

datatype ffprobe_format =
    FormatRaised                  \<comment> \<open>time-out, or any other exception\<close>
  | FormatExit int "pyfloat option"
      \<comment> \<open>the return code, and \<open>float(format.duration)\<close> when the key is present\<close>

datatype ffmpeg_run =
    Exit int ustring              \<comment> \<open>\<open>returncode\<close> and \<open>stderr\<close>\<close>
  | TimeoutExpired
  | RunRaised exn                 \<comment> \<open>any other exception of \<open>subprocess.run\<close>\<close>

datatype payload =
    WholeFile audio_file          \<comment> \<open>the bytes of a file, read whole\<close>
  | ChunkBytes audio_file chunk   \<comment> \<open>the exported bytes of one chunk of a file\<close>

record world =
  file_exists :: bool
  getsize :: "audio_file \<Rightarrow> nat"
  ffprobe_streams_of :: ffprobe_streams
  ffprobe_format_of :: ffprobe_format
  ffmpeg :: "ustring \<Rightarrow> ffmpeg_run"
  extracted_datetime :: int
  stt_client :: "exn option"
  from_file :: "audio_file \<Rightarrow> exn + int"
  read_file :: "audio_file \<Rightarrow> exn option"
  export :: "audio_file \<Rightarrow> chunk \<Rightarrow> exn + nat"
  recognize :: "payload \<Rightarrow> exn + ustring list"
  gemini_model :: "exn option"
  generate_content :: "audio_file \<Rightarrow> exn + ustring"

text \<open>
  \<^item> \<open>getsize f\<close>: \<open>os.path.getsize\<close> of the file, in bytes.
  \<^item> \<open>ffmpeg fmt\<close>: the run of \<open>ffmpeg\<close> that converts the uploaded file to the target
    format \<open>fmt\<close>.
  \<^item> \<open>extracted_datetime\<close>: what \<open>extract_datetime_from_filename\<close> returns for the
    file's name (the time parsed from the name, or the current time; it never raises),
    in microseconds.
  \<^item> \<open>stt_client\<close>: the exception that building the credentials and the
    \<open>SpeechClient\<close> raises, if any.
  \<^item> \<open>from_file f\<close>: \<open>len(AudioSegment.from_file(f))\<close>, the length in milliseconds.
  \<^item> \<open>read_file f\<close>: the exception that opening and reading the file raises, if any.
  \<^item> \<open>export f c\<close>: \<open>len(chunk_bytes)\<close> of the exported chunk \<open>c\<close> of file \<open>f\<close>.
  \<^item> \<open>recognize p\<close>: the recognizer's call on the payload; on success the list
    \<open>[result.alternatives[0].transcript for result in response.results]\<close>.
  \<^item> \<open>gemini_model\<close>: the exception that \<open>genai.configure\<close> or
    \<open>genai.GenerativeModel\<close> raises, if any.
  \<^item> \<open>generate_content f\<close>: the generative call on the bytes of the file; on success
    \<open>response.text\<close> (empty when there is no response or no text).
\<close>

section \<open>Tool functions\<close>

datatype quality_warning =
    CompressedAdpcm               \<comment> \<open>the warning for the codec \<open>adpcm_ima_wav\<close>\<close>
  | LowSampleRate int             \<comment> \<open>the warning for a sample rate under 16000 Hz\<close>

definition check_audio_quality :: "ffprobe_streams \<Rightarrow> bool option \<times> quality_warning list" where
  "check_audio_quality p =
     (case p of
        StreamsRaised \<Rightarrow> (Some False, [])
      | NoStreams \<Rightarrow> (None, [])
      | FirstStream codec sample_rate \<Rightarrow>
          (Some (codec = asc ''adpcm_ima_wav'' \<or> sample_rate < 16000),
           (if codec = asc ''adpcm_ima_wav'' then [CompressedAdpcm] else []) @
           (if sample_rate < 16000 then [LowSampleRate sample_rate] else [])))"

definition truthy :: "bool option \<Rightarrow> bool" where
  \<comment> \<open>\<open>if needs_conversion:\<close> for a value that is \<open>None\<close>, \<open>True\<close> or \<open>False\<close>\<close>
  "truthy b = (b = Some True)"

definition CONVERT_FAILED :: ustring where
  \<comment> \<open>"conversion failed:" (zhuan huan shi bai, full-width colon)\<close>
  "CONVERT_FAILED = [0x8f49, 0x63db, 0x5931, 0x6557, 0xff1a]"

definition CONVERT_TIMEOUT :: ustring where
  \<comment> \<open>"conversion timed out" (zhuan huan chao shi)\<close>
  "CONVERT_TIMEOUT = [0x8f49, 0x63db, 0x8d85, 0x6642]"

definition CONVERT_ERROR :: ustring where
  \<comment> \<open>"conversion error:" (zhuan huan cuo wu, full-width colon)\<close>
  "CONVERT_ERROR = [0x8f49, 0x63db, 0x932f, 0x8aa4, 0xff1a]"

definition UNSUPPORTED_FORMAT :: ustring where
  \<comment> \<open>"unsupported format:" (bu zhi yuan de ge shi, full-width colon)\<close>
  "UNSUPPORTED_FORMAT = [0x4e0d, 0x652f, 0x63f4, 0x7684, 0x683c, 0x5f0f, 0xff1a]"

definition CONVERTED_TO :: ustring where
  \<comment> \<open>"converted to standard " (yi zhuan huan wei biao zhun)\<close>
  "CONVERTED_TO = [0x5df2, 0x8f49, 0x63db, 0x70ba, 0x6a19, 0x6e96, 32]"

definition FORMAT_WORD :: ustring where
  \<comment> \<open>" format" (ge shi)\<close>
  "FORMAT_WORD = [32, 0x683c, 0x5f0f]"

definition convert_audio_to_standard_format :: "world \<Rightarrow> ustring \<Rightarrow> bool \<times> ustring" where
  "convert_audio_to_standard_format w target_format =
     (if target_format = asc ''wav'' \<or> target_format = asc ''m4a'' then
        (case ffmpeg w target_format of
           Exit returncode stderr \<Rightarrow>
             if returncode = 0 then (True, CONVERTED_TO @ upper target_format @ FORMAT_WORD)
             else (False, CONVERT_FAILED @ take 200 stderr)
         | TimeoutExpired \<Rightarrow> (False, CONVERT_TIMEOUT)
         | RunRaised e \<Rightarrow> (False, CONVERT_ERROR @ take 200 e))
      else (False, UNSUPPORTED_FORMAT @ target_format))"

definition get_audio_info :: "world \<Rightarrow> pyfloat" where
  \<comment> \<open>the duration in seconds; 0 on every failure\<close>
  "get_audio_info w =
     (if \<not> file_exists w then Finite 0
      else if getsize w Original = 0 then Finite 0
      else case ffprobe_format_of w of
             FormatRaised \<Rightarrow> Finite 0
           | FormatExit returncode duration \<Rightarrow>
               if returncode \<noteq> 0 then Finite 0
               else (case duration of None \<Rightarrow> Finite 0 | Some d \<Rightarrow> d))"

definition py_int :: "rat \<Rightarrow> int" where
  \<comment> \<open>\<open>int(x)\<close> of a number: truncation towards zero\<close>
  "py_int x = (if 0 \<le> x then \<lfloor>x\<rfloor> else \<lceil>x\<rceil>)"

definition format_duration :: "rat \<Rightarrow> int option" where
  \<comment> \<open>\<open>str(timedelta(seconds=int(seconds)))\<close>: the whole seconds that it prints, or
      \<open>None\<close> when \<open>timedelta\<close> raises \<open>OverflowError\<close>, which it does for more than
      999999999 days in either direction\<close>
  "format_duration seconds =
     (let n = py_int seconds in
      if - 86399999913600 \<le> n \<and> n \<le> 86399999999999 then Some n else None)"

section \<open>Transcription by the recognizer (Google STT)\<close>

text \<open>
  The markers of the source. The Chinese text is given in pinyin in the comments.
\<close>

definition NO_CONTENT :: ustring where
  \<comment> \<open>\<open>"[...]"\<close> with "cannot recognize the content" (wu fa bian shi nei rong)\<close>
  "NO_CONTENT = [91, 0x7121, 0x6cd5, 0x8fa8, 0x8b58, 0x5167, 0x5bb9, 93]"

definition chunk_too_large :: "nat \<Rightarrow> ustring" where
  \<comment> \<open>\<open>f"[di {idx+1} duan guo da, tiao guo]"\<close>: "chunk n too large, skipped"\<close>
  "chunk_too_large idx =
     [91, 0x7b2c] @ str_nat (idx + 1) @ [0x6bb5, 0x904e, 0x5927, 0xff0c, 0x8df3, 0x904e, 93]"

definition chunk_quota :: "nat \<Rightarrow> ustring" where
  \<comment> \<open>\<open>f"[di {idx+1} duan: pei e bu zu]"\<close>: "chunk n: quota insufficient"\<close>
  "chunk_quota idx =
     [91, 0x7b2c] @ str_nat (idx + 1) @ [0x6bb5, 58, 32, 0x914d, 0x984d, 0x4e0d, 0x8db3, 93]"

definition chunk_failed :: "nat \<Rightarrow> ustring" where
  \<comment> \<open>\<open>f"[di {idx+1} duan bian shi shi bai]"\<close>: "chunk n recognition failed"\<close>
  "chunk_failed idx =
     [91, 0x7b2c] @ str_nat (idx + 1) @ [0x6bb5, 0x8fa8, 0x8b58, 0x5931, 0x6557, 93]"

definition STT_QUOTA :: ustring where
  \<comment> \<open>\<open>"[STT cuo wu: API pei e bu zu, qing shao hou zai shi]"\<close>\<close>
  "STT_QUOTA = [91, 83, 84, 84, 32, 0x932f, 0x8aa4, 58, 32, 65, 80, 73, 32, 0x914d, 0x984d,
     0x4e0d, 0x8db3, 0xff0c, 0x8acb, 0x7a0d, 0x5f8c, 0x518d, 0x8a66, 93]"

definition STT_INVALID :: ustring where
  \<comment> \<open>\<open>"[STT cuo wu: yin xun ge shi wu xiao]"\<close>\<close>
  "STT_INVALID = [91, 83, 84, 84, 32, 0x932f, 0x8aa4, 58, 32, 0x97f3, 0x8a0a, 0x683c, 0x5f0f,
     0x7121, 0x6548, 93]"

definition STT_TOO_LONG :: ustring where
  \<comment> \<open>\<open>"[STT cuo wu: yin xun guo chang, qing tiao zheng qie fen she ding]"\<close>\<close>
  "STT_TOO_LONG = [91, 83, 84, 84, 32, 0x932f, 0x8aa4, 58, 32, 0x97f3, 0x8a0a, 0x904e, 0x9577,
     0xff0c, 0x8acb, 0x8abf, 0x6574, 0x5207, 0x5206, 0x8a2d, 0x5b9a, 93]"

definition STT_ERROR :: ustring where
  \<comment> \<open>\<open>"[STT cuo wu: "\<close>, the prefix of the general marker\<close>
  "STT_ERROR = [91, 83, 84, 84, 32, 0x932f, 0x8aa4, 58, 32]"

definition working_path :: "world \<Rightarrow> audio_file" where
  \<comment> \<open>steps 1 and 2 of \<open>transcribe_google_stt\<close>: the file that is transcribed\<close>
  "working_path w =
     (let (needs_conversion, warnings) = check_audio_quality (ffprobe_streams_of w) in
      if truthy needs_conversion then
        (let (success, message) = convert_audio_to_standard_format w (asc ''wav'') in
         if success then ConvertedWav else Original)
      else Original)"

definition max_size_bytes :: nat where
  \<comment> \<open>\<open>max_size_mb = 8\<close>; a size in MB is the size in bytes divided by \<open>1024 * 1024\<close>\<close>
  "max_size_bytes = 8 * (1024 * 1024)"

definition chunk_transcript :: "world \<Rightarrow> audio_file \<Rightarrow> nat \<times> chunk \<Rightarrow> ustring" where
  \<comment> \<open>what one iteration of the loop over \<open>enumerate(chunks)\<close> appends to \<open>transcripts\<close>\<close>
  "chunk_transcript w f ic =
     (case ic of (idx, chunk) \<Rightarrow>
        (case (case export w f chunk of
                 Inl chunk_error \<Rightarrow> Inl chunk_error
               | Inr chunk_size \<Rightarrow>
                   if chunk_size > max_size_bytes then Inr (chunk_too_large idx)
                   else (case recognize w (ChunkBytes f chunk) of
                           Inl chunk_error \<Rightarrow> Inl chunk_error
                         | Inr results \<Rightarrow> Inr (concat results))) of
           Inl error_msg \<Rightarrow>
             if py_in (asc ''quota'') (lower error_msg) then chunk_quota idx
             else chunk_failed idx
         | Inr appended \<Rightarrow> appended))"

definition chunk_transcripts :: "world \<Rightarrow> audio_file \<Rightarrow> chunk list \<Rightarrow> ustring list" where
  \<comment> \<open>the list \<open>transcripts\<close> after the loop\<close>
  "chunk_transcripts w f chunks = map (chunk_transcript w f) (List.enumerate 0 chunks)"

definition join_transcripts :: "ustring list \<Rightarrow> ustring" where
  \<comment> \<open>\<open>full_transcript = "".join(transcripts)\<close> and the test that follows it\<close>
  "join_transcripts transcripts =
     (let full_transcript = concat transcripts in
      if full_transcript = [] \<or> strip full_transcript = [] then NO_CONTENT
      else full_transcript)"

definition stt_body :: "world \<Rightarrow> int \<Rightarrow> exn + ustring" where
  \<comment> \<open>the body of the outer \<open>try\<close> of \<open>transcribe_google_stt\<close>; the test
      \<open>duration_seconds <= max_chunk_duration\<close> on \<open>len / 1000.0\<close> is the test
      \<open>len <= max_chunk_duration * 1000\<close> on the milliseconds\<close>
  "stt_body w max_chunk_duration =
     (let f = working_path w in
      case stt_client w of
        Some e \<Rightarrow> Inl e
      | None \<Rightarrow>
          (case from_file w f of
             Inl e \<Rightarrow> Inl e
           | Inr len_ms \<Rightarrow>
               if len_ms \<le> max_chunk_duration * 1000 \<and> getsize w f \<le> max_size_bytes then
                 (case read_file w f of
                    Some e \<Rightarrow> Inl e
                  | None \<Rightarrow>
                      (case recognize w (WholeFile f) of
                         Inl e \<Rightarrow> Inl e
                       | Inr results \<Rightarrow>
                           Inr (if concat results = [] then NO_CONTENT else concat results)))
               else
                 (case segment len_ms max_chunk_duration of
                    Inl e \<Rightarrow> Inl e
                  | Inr chunks \<Rightarrow> Inr (join_transcripts (chunk_transcripts w f chunks)))))"

definition stt_error_marker :: "exn \<Rightarrow> ustring" where
  \<comment> \<open>the outer \<open>except Exception as e\<close> of \<open>transcribe_google_stt\<close>\<close>
  "stt_error_marker error_msg =
     (if py_in (asc ''quota'') (lower error_msg) then STT_QUOTA
      else if py_in (asc ''invalid'') (lower error_msg) then STT_INVALID
      else if py_in (asc ''duration limit'') (lower error_msg)
              \<or> py_in (asc ''too long'') (lower error_msg) then STT_TOO_LONG
      else STT_ERROR @ take 100 error_msg @ [93])"

definition transcribe_google_stt :: "world \<Rightarrow> int \<Rightarrow> ustring" where
  \<comment> \<open>\<open>transcribe_google_stt(audio_path, filename, max_chunk_duration)\<close>; \<open>filename\<close>
      is not used by the source\<close>
  "transcribe_google_stt w max_chunk_duration =
     (case stt_body w max_chunk_duration of
        Inl e \<Rightarrow> stt_error_marker e
      | Inr result \<Rightarrow> result)"

subsection \<open>The second pipeline file\<close>

text \<open>
  The repository holds a second, shorter pipeline file (its name differs from the first
  by a full-width low line). Its functions carry the suffix \<open>_variant\<close> here. Its main
  loop converts every upload to WAV first and hands the converted file to both
  transcribers. A chunk is exported outside the inner \<open>try\<close>, and a chunk whose
  recognition raises appends the empty string.
\<close>

fun chunk_transcripts_variant :: "world \<Rightarrow> audio_file \<Rightarrow> chunk list \<Rightarrow> exn + ustring list" where
  "chunk_transcripts_variant w f [] = Inr []"
| "chunk_transcripts_variant w f (chunk # chunks) =
     (case export w f chunk of
        Inl e \<Rightarrow> Inl e
      | Inr chunk_size \<Rightarrow>
          (let appended = (case recognize w (ChunkBytes f chunk) of
                             Inl e \<Rightarrow> []
                           | Inr results \<Rightarrow> concat results) in
           case chunk_transcripts_variant w f chunks of
             Inl e \<Rightarrow> Inl e
           | Inr transcripts \<Rightarrow> Inr (appended # transcripts)))"

definition stt_body_variant :: "world \<Rightarrow> int \<Rightarrow> exn + ustring" where
  "stt_body_variant w max_chunk_duration =
     (case stt_client w of
        Some e \<Rightarrow> Inl e
      | None \<Rightarrow>
          (case from_file w ConvertedWav of
             Inl e \<Rightarrow> Inl e
           | Inr len_ms \<Rightarrow>
               (case segment len_ms max_chunk_duration of
                  Inl e \<Rightarrow> Inl e
                | Inr chunks \<Rightarrow>
                    (case chunk_transcripts_variant w ConvertedWav chunks of
                       Inl e \<Rightarrow> Inl e
                     | Inr transcripts \<Rightarrow>
                         Inr (let full_transcript = concat transcripts in
                              if strip full_transcript \<noteq> [] then full_transcript
                              else NO_CONTENT)))))"

definition transcribe_google_stt_variant :: "world \<Rightarrow> int \<Rightarrow> ustring" where
  "transcribe_google_stt_variant w max_chunk_duration =
     (case stt_body_variant w max_chunk_duration of
        Inl e \<Rightarrow> STT_ERROR @ take 100 e @ [93]
      | Inr result \<Rightarrow> result)"

section \<open>Transcription by the generative model (Gemini)\<close>

definition GEMINI_CONVERT_FAILED :: ustring where
  \<comment> \<open>\<open>"[Gemini cuo wu: yin xun zhuan huan shi bai - "\<close>: "audio conversion failed"\<close>
  "GEMINI_CONVERT_FAILED = [91, 71, 101, 109, 105, 110, 105, 32, 0x932f, 0x8aa4, 58, 32,
     0x97f3, 0x8a0a, 0x8f49, 0x63db, 0x5931, 0x6557, 32, 45, 32]"

definition GEMINI_TOO_LARGE :: ustring where
  \<comment> \<open>\<open>"[Gemini cuo wu: zhuan huan hou dang an guo da ("\<close>: "converted file too large"\<close>
  "GEMINI_TOO_LARGE = [91, 71, 101, 109, 105, 110, 105, 32, 0x932f, 0x8aa4, 58, 32,
     0x8f49, 0x63db, 0x5f8c, 0x6a94, 0x6848, 0x904e, 0x5927, 32, 40]"

definition GEMINI_LIMIT :: ustring where
  \<comment> \<open>\<open>"MB, xian zhi 15MB)]"\<close>: "limit 15MB"\<close>
  "GEMINI_LIMIT = [77, 66, 0xff0c, 0x9650, 0x5236, 32, 49, 53, 77, 66, 41, 93]"

definition GEMINI_QUOTA :: ustring where
  \<comment> \<open>\<open>"[Gemini cuo wu: API pei e bu zu]"\<close>\<close>
  "GEMINI_QUOTA = [91, 71, 101, 109, 105, 110, 105, 32, 0x932f, 0x8aa4, 58, 32, 65, 80, 73,
     32, 0x914d, 0x984d, 0x4e0d, 0x8db3, 93]"

definition GEMINI_FORMAT :: ustring where
  \<comment> \<open>\<open>"[Gemini cuo wu: ge shi wen ti - "\<close>: "format problem"\<close>
  "GEMINI_FORMAT = [91, 71, 101, 109, 105, 110, 105, 32, 0x932f, 0x8aa4, 58, 32,
     0x683c, 0x5f0f, 0x554f, 0x984c, 32, 45, 32]"

definition GEMINI_SAFETY :: ustring where
  \<comment> \<open>\<open>"[Gemini cuo wu: nei rong bei an quan guo lu qi zu dang]"\<close>\<close>
  "GEMINI_SAFETY = [91, 71, 101, 109, 105, 110, 105, 32, 0x932f, 0x8aa4, 58, 32,
     0x5167, 0x5bb9, 0x88ab, 0x5b89, 0x5168, 0x904e, 0x6ffe, 0x5668, 0x963b, 0x64cb, 93]"

definition GEMINI_GENERATION :: ustring where
  \<comment> \<open>\<open>"[Gemini sheng cheng cuo wu: "\<close>: "generation error"\<close>
  "GEMINI_GENERATION = [91, 71, 101, 109, 105, 110, 105, 32, 0x751f, 0x6210, 0x932f, 0x8aa4,
     58, 32]"

definition GEMINI_KEY :: ustring where
  \<comment> \<open>\<open>"[Gemini cuo wu: API Key wu xiao huo wei she ding]"\<close>\<close>
  "GEMINI_KEY = [91, 71, 101, 109, 105, 110, 105, 32, 0x932f, 0x8aa4, 58, 32, 65, 80, 73, 32,
     75, 101, 121, 32, 0x7121, 0x6548, 0x6216, 0x672a, 0x8a2d, 0x5b9a, 93]"

definition GEMINI_PERMISSION :: ustring where
  \<comment> \<open>\<open>"[Gemini cuo wu: API quan xian bu zu]"\<close>\<close>
  "GEMINI_PERMISSION = [91, 71, 101, 109, 105, 110, 105, 32, 0x932f, 0x8aa4, 58, 32, 65, 80,
     73, 32, 0x6b0a, 0x9650, 0x4e0d, 0x8db3, 93]"

definition GEMINI_ERROR :: ustring where
  \<comment> \<open>\<open>"[Gemini cuo wu: "\<close>, the prefix of the general marker\<close>
  "GEMINI_ERROR = [91, 71, 101, 109, 105, 110, 105, 32, 0x932f, 0x8aa4, 58, 32]"

definition GEMINI_BAD_REQUEST :: ustring where
  \<comment> \<open>\<open>"[Gemini cuo wu: ge shi bu zhi yuan huo dang an sun hui]"\<close>\<close>
  "GEMINI_BAD_REQUEST = [91, 71, 101, 109, 105, 110, 105, 32, 0x932f, 0x8aa4, 58, 32,
     0x683c, 0x5f0f, 0x4e0d, 0x652f, 0x63f4, 0x6216, 0x6a94, 0x6848, 0x640d, 0x6bc0, 93]"

definition round_half_even :: "rat \<Rightarrow> int" where
  "round_half_even x =
     (let f = \<lfloor>x\<rfloor>; d = x - of_int f in
      if d < 1 / 2 then f else if 1 / 2 < d then f + 1 else if even f then f else f + 1)"

definition format_mb :: "nat \<Rightarrow> ustring" where
  \<comment> \<open>\<open>f"{file_size_mb:.1f}"\<close> for \<open>file_size_mb = size / (1024 * 1024)\<close>: the quotient
      is exact, and the format rounds it to one decimal, ties to even\<close>
  "format_mb size_bytes =
     (let tenths = nat (round_half_even (of_nat size_bytes * 10 / (1024 * 1024))) in
      str_nat (tenths div 10) @ [46] @ str_nat (tenths mod 10))"

definition gemini_generation_marker :: "exn \<Rightarrow> ustring" where
  \<comment> \<open>the inner \<open>except Exception as gen_error\<close> of \<open>transcribe_gemini\<close>\<close>
  "gemini_generation_marker error_str =
     (if py_in (asc ''quota'') (lower error_str) \<or> py_in (asc ''429'') error_str
        then GEMINI_QUOTA
      else if py_in (asc ''unsupported'') (lower error_str)
              \<or> py_in (asc ''invalid'') (lower error_str)
        then GEMINI_FORMAT @ take 100 error_str @ [93]
      else if py_in (asc ''safety'') (lower error_str) then GEMINI_SAFETY
      else GEMINI_GENERATION @ take 120 error_str @ [93])"

definition gemini_error_marker :: "exn \<Rightarrow> ustring" where
  \<comment> \<open>the outer \<open>except Exception as e\<close> of \<open>transcribe_gemini\<close>\<close>
  "gemini_error_marker error_msg =
     (if py_in (asc ''api key'') (lower error_msg) \<or> py_in (asc ''api_key'') (lower error_msg)
        then GEMINI_KEY
      else if py_in (asc ''quota'') (lower error_msg) \<or> py_in (asc ''429'') error_msg
        then GEMINI_QUOTA
      else if py_in (asc ''permission'') (lower error_msg) then GEMINI_PERMISSION
      else GEMINI_ERROR @ take 150 error_msg @ [93])"

definition transcribe_gemini :: "world \<Rightarrow> ustring" where
  "transcribe_gemini w =
     (let (success, message) = convert_audio_to_standard_format w (asc ''m4a'') in
      if \<not> success then GEMINI_CONVERT_FAILED @ message @ [93]
      else
        (case gemini_model w of
           Some e \<Rightarrow> gemini_error_marker e
         | None \<Rightarrow>
             if getsize w ConvertedM4a > 15 * (1024 * 1024)
               then GEMINI_TOO_LARGE @ format_mb (getsize w ConvertedM4a) @ GEMINI_LIMIT
             else
               (case read_file w ConvertedM4a of
                  Some e \<Rightarrow> gemini_error_marker e
                | None \<Rightarrow>
                    (case generate_content w ConvertedM4a of
                       Inl gen_error \<Rightarrow> gemini_generation_marker gen_error
                     | Inr text \<Rightarrow> if text = [] then NO_CONTENT else strip text))))"

definition transcribe_gemini_variant :: "world \<Rightarrow> ustring" where
  \<comment> \<open>the second pipeline file: no conversion of its own, one \<open>except\<close>\<close>
  "transcribe_gemini_variant w =
     (case (case gemini_model w of
              Some e \<Rightarrow> Inl e
            | None \<Rightarrow>
                (case read_file w ConvertedWav of
                   Some e \<Rightarrow> Inl e
                 | None \<Rightarrow>
                     (case generate_content w ConvertedWav of
                        Inl e \<Rightarrow> Inl e
                      | Inr text \<Rightarrow> Inr (if text \<noteq> [] then strip text else NO_CONTENT)))) of
        Inl e \<Rightarrow> if py_in (asc ''400'') e then GEMINI_BAD_REQUEST
                 else GEMINI_ERROR @ take 100 e @ [93]
      | Inr result \<Rightarrow> result)"

section \<open>Transcript records and the merged document\<close>

text \<open>
  A record of the source is a dictionary with the keys \<open>filename\<close>, \<open>datetime\<close>,
  \<open>duration_sec\<close> and \<open>transcript\<close>. A \<open>datetime\<close> is the number of microseconds since
  a fixed origin, taken to stay within the years that \<open>datetime\<close> holds; a duration (a
  Python \<open>float\<close>) is a rational number of seconds.
  Arithmetic on durations is exact here. The source computes in floating point, whose
  rounding can make \<open>int(i * interval)\<close> fall one second short where the exact product
  is a whole number (utterance 8 of 14 in 122 seconds: 60 for 61); with three utterances
  the two agree, since \<open>1 * x\<close> and \<open>2 * x\<close> are exact. The durations of the records
  that the loop builds have passed \<open>format_duration\<close> in the loop.

  The documents are lists of lines. A line is kept as the data it prints: one
  constructor for each \<open>lines.append\<close> of the source, with the values that its f-string
  formats as arguments. \<open>format_duration(x)\<close> prints \<open>int(x)\<close> seconds, and so the lines
  carry \<open>py_int x\<close>.
\<close>

record transcript_record =
  filename :: ustring
  datetime :: int
  duration_sec :: rat
  transcript :: ustring








definition sort_records :: "transcript_record list \<Rightarrow> transcript_record list" where
  \<comment> \<open>\<open>records.sort(key=lambda x: x['datetime'])\<close>: a stable sort; it sorts the caller's
      list in place\<close>
  "sort_records records = sort_key datetime records"


section \<open>The comparison report\<close>




definition division_by_zero :: exn where
  "division_by_zero = asc ''division by zero''"

definition py_truediv :: "rat \<Rightarrow> rat \<Rightarrow> exn + rat" where
  \<comment> \<open>\<open>a / b\<close>, which raises \<open>ZeroDivisionError\<close> for \<open>b = 0\<close>\<close>
  "py_truediv a b = (if b = 0 then Inl division_by_zero else Inr (a / b))"

definition similarity_pct :: "ustring \<Rightarrow> ustring \<Rightarrow> exn + rat" where
  "similarity_pct stt_text gemini_text =
     (let common_chars = set stt_text \<inter> set gemini_text in
      case py_truediv (of_nat (card common_chars))
             (of_nat (max (max (card (set stt_text)) (card (set gemini_text))) 1)) of
        Inl e \<Rightarrow> Inl e
      | Inr q \<Rightarrow> Inr (q * 100))"







section \<open>The main loop over the uploaded files\<close>

text \<open>
  The mode is the string of the radio button; \<open>chunk_duration\<close> is the integer of the
  slider. An uploaded file is its name and its world. The state of the loop is the two
  record lists; the names of the files for which the loop shows an error and goes on to
  the next file are kept as well.
\<close>

definition MODE_STT :: ustring where
  \<comment> \<open>\<open>"jin Google STT"\<close>: only Google STT\<close>
  "MODE_STT = [0x50c5, 32] @ asc ''Google STT''"

definition MODE_GEMINI :: ustring where
  \<comment> \<open>\<open>"jin Gemini"\<close>: only Gemini\<close>
  "MODE_GEMINI = [0x50c5, 32] @ asc ''Gemini''"

definition DUAL_WORD :: ustring where
  \<comment> \<open>"dual mode" (shuang mo shi)\<close>
  "DUAL_WORD = [0x96d9, 0x6a21, 0x5f0f]"

definition MODE_DUAL :: ustring where
  \<comment> \<open>\<open>"shuang mo shi (bi jiao)"\<close>: dual mode (comparison)\<close>
  "MODE_DUAL = DUAL_WORD @ [32, 40, 0x6bd4, 0x8f03, 41]"

definition use_stt :: "ustring \<Rightarrow> bool" where
  "use_stt mode = (py_in (asc ''Google STT'') mode \<or> py_in DUAL_WORD mode)"

definition use_gemini :: "ustring \<Rightarrow> bool" where
  "use_gemini mode = (py_in (asc ''Gemini'') mode \<or> py_in DUAL_WORD mode)"

record upload =
  name :: ustring
  world_of :: world

record loop_state =
  stt_records :: "transcript_record list"
  gemini_records :: "transcript_record list"
  skipped :: "ustring list"

definition initial_state :: loop_state where
  "initial_state = \<lparr>stt_records = [], gemini_records = [], skipped = []\<rparr>"

definition append_stt :: "bool \<Rightarrow> transcript_record \<Rightarrow> loop_state \<Rightarrow> loop_state" where
  \<comment> \<open>\<open>if use_stt: stt_records.append(...)\<close>\<close>
  "append_stt enabled r s = (if enabled then s\<lparr>stt_records := stt_records s @ [r]\<rparr> else s)"

definition append_gemini :: "bool \<Rightarrow> transcript_record \<Rightarrow> loop_state \<Rightarrow> loop_state" where
  \<comment> \<open>\<open>if use_gemini: gemini_records.append(...)\<close>\<close>
  "append_gemini enabled r s =
     (if enabled then s\<lparr>gemini_records := gemini_records s @ [r]\<rparr> else s)"

definition process_upload :: "ustring \<Rightarrow> int \<Rightarrow> loop_state \<Rightarrow> upload \<Rightarrow> loop_state" where
  \<comment> \<open>one iteration of the loop of the first pipeline file. The \<open>try\<close> around the probe
      holds the test for 0 and the status line, which prints
      \<open>format_duration(duration_sec)\<close>: the iteration shows an error and goes on to the
      next file when the duration is 0 and when the status line raises (\<open>int\<close> of a
      float that is not finite, or \<open>timedelta\<close> out of range).\<close>
  "process_upload mode chunk_duration s uploaded_file =
     (let w = world_of uploaded_file in
      case get_audio_info w of
        NotFinite \<Rightarrow> s\<lparr>skipped := skipped s @ [name uploaded_file]\<rparr>
      | Finite duration \<Rightarrow>
          if duration = 0 then s\<lparr>skipped := skipped s @ [name uploaded_file]\<rparr>
          else
            (case format_duration duration of
               None \<Rightarrow> s\<lparr>skipped := skipped s @ [name uploaded_file]\<rparr>
             | Some shown \<Rightarrow>
                 (let base_dt = extracted_datetime w;
                      s1 = append_stt (use_stt mode)
                             \<lparr>filename = name uploaded_file, datetime = base_dt,
                              duration_sec = duration,
                              transcript = transcribe_google_stt w chunk_duration\<rparr> s
                  in append_gemini (use_gemini mode)
                       \<lparr>filename = name uploaded_file, datetime = base_dt,
                        duration_sec = duration, transcript = transcribe_gemini w\<rparr> s1)))"

definition main_loop :: "ustring \<Rightarrow> int \<Rightarrow> upload list \<Rightarrow> loop_state" where
  "main_loop mode chunk_duration uploaded_files =
     foldl (process_upload mode chunk_duration) initial_state uploaded_files"





subsection \<open>The loop of the second pipeline file\<close>

definition process_upload_variant ::
    "ustring \<Rightarrow> int \<Rightarrow> loop_state \<Rightarrow> upload \<Rightarrow> exn + loop_state" where
  \<comment> \<open>one iteration: \<open>ffmpeg\<close> runs with \<open>check=True\<close> and without a time limit; only its
      \<open>CalledProcessError\<close> (a return code that is not 0) is caught, and any other
      exception leaves the loop\<close>
  "process_upload_variant mode chunk_duration s uploaded_file =
     (let w = world_of uploaded_file in
      case ffmpeg w (asc ''wav'') of
        RunRaised e \<Rightarrow> Inl e
      | TimeoutExpired \<Rightarrow> Inl (asc ''TimeoutExpired'')
      | Exit returncode stderr \<Rightarrow>
          if returncode \<noteq> 0 then Inr (s\<lparr>skipped := skipped s @ [name uploaded_file]\<rparr>)
          else
            (let duration = (case from_file w ConvertedWav of
                               Inl e \<Rightarrow> 0
                             | Inr len_ms \<Rightarrow> of_int len_ms / 1000);
                 base_dt = extracted_datetime w;
                 s1 = append_stt (use_stt mode)
                        \<lparr>filename = name uploaded_file, datetime = base_dt,
                         duration_sec = duration,
                         transcript = transcribe_google_stt_variant w chunk_duration\<rparr> s
             in Inr (append_gemini (use_gemini mode)
                  \<lparr>filename = name uploaded_file, datetime = base_dt,
                   duration_sec = duration, transcript = transcribe_gemini_variant w\<rparr> s1)))"

fun main_loop_variant :: "ustring \<Rightarrow> int \<Rightarrow> loop_state \<Rightarrow> upload list \<Rightarrow> exn + loop_state" where
  "main_loop_variant mode chunk_duration s [] = Inr s"
| "main_loop_variant mode chunk_duration s (uploaded_file # uploaded_files) =
     (case process_upload_variant mode chunk_duration s uploaded_file of
        Inl e \<Rightarrow> Inl e
      | Inr s' \<Rightarrow> main_loop_variant mode chunk_duration s' uploaded_files)"

subsection \<open>The documents of the second pipeline file\<close>

text \<open>
  The second pipeline file writes shorter documents: the merged document lists, for each
  record in the order of the list, the file name, the transcript and a rule; the
  comparison pairs the records with \<open>zip\<close>. The names \<open>use_stt\<close> and \<open>use_gemini\<close> are
  bound inside the loop, in the iterations that get past the conversion, and read after
  the loop: when no iteration bound them, reading \<open>use_stt\<close> raises \<open>NameError\<close>.
\<close>

datatype variant_merged_line =
    VHeavyRule                  \<comment> \<open>60 double horizontal bars\<close>
  | VGenerated int              \<comment> \<open>generation time: \<open>datetime.now()\<close>\<close>
  | VHeavyRuleBlank             \<comment> \<open>60 double bars and a newline\<close>
  | VFileName ustring           \<comment> \<open>the file name in brackets\<close>
  | VTranscript ustring         \<comment> \<open>the transcript\<close>
  | VDashesBlank                \<comment> \<open>30 dashes and a newline\<close>

datatype variant_report_line =
    VReportTitle                \<comment> \<open>the title of the comparison report\<close>
  | VEqualsRule                 \<comment> \<open>40 equals signs\<close>
  | VFile ustring               \<comment> \<open>the file name of the STT record\<close>
  | VSttText ustring            \<comment> \<open>the transcript of the STT record\<close>
  | VGeminiText ustring         \<comment> \<open>the transcript of the Gemini record\<close>
  | VDashes                     \<comment> \<open>40 dashes\<close>

definition generate_merged_content_variant ::
    "int \<Rightarrow> transcript_record list \<Rightarrow> variant_merged_line list" where
  "generate_merged_content_variant now records =
     [VHeavyRule, VGenerated now, VHeavyRuleBlank]
     @ concat (map (\<lambda>record. [VFileName (filename record), VTranscript (transcript record),
                               VDashesBlank]) records)"

definition generate_comparison_report_variant ::
    "transcript_record list \<Rightarrow> transcript_record list \<Rightarrow> variant_report_line list" where
  "generate_comparison_report_variant stt_recs gemini_recs =
     [VReportTitle, VEqualsRule]
     @ concat (map (\<lambda>(stt, gem). [VFile (filename stt), VSttText (transcript stt),
                                   VGeminiText (transcript gem), VDashes])
                (zip stt_recs gemini_recs))"

fun modes_bound :: "bool \<Rightarrow> upload list \<Rightarrow> bool" where
  \<comment> \<open>whether \<open>use_stt\<close> and \<open>use_gemini\<close> are bound after the loop, given whether they
      were before it: an iteration binds them when its conversion returned 0\<close>
  "modes_bound bound [] = bound"
| "modes_bound bound (uploaded_file # uploaded_files) =
     (case ffmpeg (world_of uploaded_file) (asc ''wav'') of
        Exit returncode stderr \<Rightarrow>
          if returncode \<noteq> 0 then modes_bound bound uploaded_files
          else modes_bound True uploaded_files
      | TimeoutExpired \<Rightarrow> bound
      | RunRaised e \<Rightarrow> bound)"

definition name_error :: exn where
  "name_error = asc ''name 'use_stt' is not defined''"

record outputs_variant =
  stt_result :: "variant_merged_line list option"
  gemini_result :: "variant_merged_line list option"
  comparison_report :: "variant_report_line list option"

definition run_app_variant ::
    "ustring \<Rightarrow> int \<Rightarrow> int \<Rightarrow> upload list \<Rightarrow> exn + outputs_variant option" where
  \<comment> \<open>what the button does in the second pipeline file: nothing without an upload;
      otherwise the loop, and the documents after it\<close>
  "run_app_variant mode chunk_duration now uploaded_files =
     (if uploaded_files = [] then Inr None
      else
        (case main_loop_variant mode chunk_duration initial_state uploaded_files of
           Inl e \<Rightarrow> Inl e
         | Inr s \<Rightarrow>
             if \<not> modes_bound False uploaded_files then Inl name_error
             else
               Inr (Some
                 \<lparr>stt_result =
                    (if use_stt mode
                     then Some (generate_merged_content_variant now (stt_records s))
                     else None),
                  gemini_result =
                    (if use_gemini mode
                     then Some (generate_merged_content_variant now (gemini_records s))
                     else None),
                  comparison_report =
                    (if use_stt mode \<and> use_gemini mode
                     then Some (generate_comparison_report_variant (stt_records s)
                                  (gemini_records s))
                     else None)\<rparr>)))"

section \<open>Notions used in the statements\<close>

text \<open>
  The number of windows of \<open>step\<close> milliseconds that cover \<open>len_ms\<close> milliseconds, and
  the \<open>k\<close>-th of these windows.
\<close>

definition chunk_count :: "int \<Rightarrow> int \<Rightarrow> nat" where
  "chunk_count len_ms step = nat ((len_ms + step - 1) div step)"

definition window :: "int \<Rightarrow> int \<Rightarrow> nat \<Rightarrow> chunk" where
  "window len_ms step k = slice len_ms (int k * step) (int k * step + step)"






text \<open>
  The uploads that get past the \<open>try\<close> of the duration probe of the first pipeline file
  (the probe returns a duration other than 0 and the status line with
  \<open>format_duration\<close> does not raise), and those that get past the conversion of the
  second one (\<open>ffmpeg_ran\<close>: the run of \<open>ffmpeg\<close> ended with a return code).
\<close>

definition loaded :: "upload \<Rightarrow> bool" where
  "loaded f =
     (case get_audio_info (world_of f) of
        NotFinite \<Rightarrow> False
      | Finite duration \<Rightarrow> duration \<noteq> 0 \<and> format_duration duration \<noteq> None)"

definition probed_seconds :: "upload \<Rightarrow> rat" where
  \<comment> \<open>the duration that the probe returns for an upload, when it is finite\<close>
  "probed_seconds f =
     (case get_audio_info (world_of f) of NotFinite \<Rightarrow> 0 | Finite duration \<Rightarrow> duration)"

definition converted_ok :: "upload \<Rightarrow> bool" where
  "converted_ok f =
     (case ffmpeg (world_of f) (asc ''wav'') of Exit returncode stderr \<Rightarrow> returncode = 0
      | TimeoutExpired \<Rightarrow> False | RunRaised e \<Rightarrow> False)"

definition ffmpeg_ran :: "upload \<Rightarrow> bool" where
  "ffmpeg_ran f =
     (case ffmpeg (world_of f) (asc ''wav'') of Exit returncode stderr \<Rightarrow> True
      | TimeoutExpired \<Rightarrow> False | RunRaised e \<Rightarrow> False)"





text \<open>
  A world for the examples: a readable upload of 125 seconds in a good format; every
  tool and service succeeds; the recognizer returns \<open>ok\<close> for every payload. An
  unreadable upload is one for which \<open>ffprobe\<close> ends with return code 1; an overlong
  upload is one for which \<open>ffprobe\<close> reports a duration of \<open>10 ^ 14\<close> seconds, more
  than \<open>timedelta\<close> holds; an unconverted upload is one for which \<open>ffmpeg\<close> ends with
  return code 1.
\<close>

definition example_world :: world where
  "example_world =
     \<lparr>file_exists = True, getsize = (\<lambda>f. 4000000),
      ffprobe_streams_of = FirstStream (asc ''pcm_s16le'') 16000,
      ffprobe_format_of = FormatExit 0 (Some (Finite 125)),
      ffmpeg = (\<lambda>fmt. Exit 0 []), extracted_datetime = 0, stt_client = None,
      from_file = (\<lambda>f. Inr 125000), read_file = (\<lambda>f. None),
      export = (\<lambda>f c. Inr 1600044), recognize = (\<lambda>p. Inr [asc ''ok'']),
      gemini_model = None, generate_content = (\<lambda>f. Inr (asc ''ok''))\<rparr>"

definition example_upload :: "string \<Rightarrow> upload" where
  "example_upload n = \<lparr>name = asc n, world_of = example_world\<rparr>"

definition unreadable_upload :: "string \<Rightarrow> upload" where
  "unreadable_upload n =
     \<lparr>name = asc n, world_of = example_world\<lparr>ffprobe_format_of := FormatExit 1 None\<rparr>\<rparr>"

definition overlong_upload :: "string \<Rightarrow> upload" where
  "overlong_upload n =
     \<lparr>name = asc n,
      world_of = example_world
        \<lparr>ffprobe_format_of := FormatExit 0 (Some (Finite 100000000000000))\<rparr>\<rparr>"

definition unconverted_upload :: "string \<Rightarrow> upload" where
  "unconverted_upload n =
     \<lparr>name = asc n, world_of = example_world\<lparr>ffmpeg := (\<lambda>fmt. Exit 1 (asc ''bad''))\<rparr>\<rparr>"

text \<open>
  A chunk fails, in the first pipeline file, when its export raises, when the exported
  bytes exceed the size limit, or when the call of the recognizer raises.
\<close>

definition chunk_fails :: "world \<Rightarrow> audio_file \<Rightarrow> chunk \<Rightarrow> bool" where
  "chunk_fails w f c =
     (case export w f c of
        Inl e \<Rightarrow> True
      | Inr n \<Rightarrow> n > max_size_bytes \<or> isl (recognize w (ChunkBytes f c)))"

text \<open>
  More worlds for the examples. In \<open>quota_world\<close> the recognizer answers \<open>one\<close> for the
  chunk that starts at 0, raises a quota error for the chunk that starts at 50 seconds,
  and answers \<open>three\<close> for every other chunk. In \<open>failing_world\<close> every call of the
  recognizer raises. In \<open>unconvertible_world\<close> the upload is in a format that asks for a
  conversion, and every run of \<open>ffmpeg\<close> ends with return code 1.
\<close>

definition quota_world :: world where
  "quota_world = example_world
     \<lparr>recognize := (\<lambda>p. case p of
          WholeFile f \<Rightarrow> Inr [asc ''whole'']
        | ChunkBytes f c \<Rightarrow>
            if start_ms c = 0 then Inr [asc ''one'']
            else if start_ms c = 50000 then Inl (asc ''429 Quota exceeded'')
            else Inr [asc ''three''])\<rparr>"

definition failing_world :: world where
  "failing_world = example_world\<lparr>recognize := (\<lambda>p. Inl (asc ''503 unavailable''))\<rparr>"







section \<open>The segmenter: properties\<close>

lemma range_up_closed:
  "0 < step \<Longrightarrow>
   range_up i stop step = map (\<lambda>k. i + int k * step) [0..<nat ((stop - i + step - 1) div step)]"
proof (induction i stop step rule: range_up.induct)
  case (1 i stop step)
  show ?case
  proof (cases "i < stop")
    case False
    with "1.prems" have "(stop - i + step - 1) div step \<le> 0"
      by (smt (verit) div_neg_pos_less0 zdiv_eq_0_iff)
    with False "1.prems" show ?thesis
      by (simp add: range_up.simps)
  next
    case True
    let ?n = "nat ((stop - (i + step) + step - 1) div step)"
    have "stop - i + step - 1 = (stop - (i + step) + step - 1) + step" by simp
    then have "(stop - i + step - 1) div step = (stop - (i + step) + step - 1) div step + 1"
      using "1.prems" by (metis div_add_self2 less_irrefl)
    moreover have "0 \<le> (stop - (i + step) + step - 1) div step"
      using True "1.prems" by (simp add: pos_imp_zdiv_nonneg_iff)
    ultimately have n: "nat ((stop - i + step - 1) div step) = Suc ?n"
      by simp
    have "range_up i stop step = i # range_up (i + step) stop step"
      using True "1.prems" by (simp add: range_up.simps)
    also have "\<dots> = i # map (\<lambda>k. (i + step) + int k * step) [0..<?n]"
      using "1.IH" True "1.prems" by simp
    also have "\<dots> = map (\<lambda>k. i + int k * step) [0..<Suc ?n]"
      by (simp add: upt_rec [of 0] map_Suc_upt [symmetric] algebra_simps del: upt_Suc)
    finally show ?thesis
      using n by simp
  qed
qed

lemma ceil_div:
  assumes "0 < (b::int)"
  shows "\<lceil>(of_int a :: rat) / of_int b\<rceil> = (a + b - 1) div b"
proof -
  let ?q = "(a + b - 1) div b" and ?r = "(a + b - 1) mod b"
  have r: "0 \<le> ?r" "?r < b" using assms by simp_all
  have eq: "a + b - 1 = b * ?q + ?r" by simp
  have "- a = b * (- ?q) + (b - 1 - ?r)" using eq by (simp add: algebra_simps)
  moreover have "0 \<le> b - 1 - ?r" "b - 1 - ?r < b" using r by simp_all
  ultimately have "(- a) div b = - ?q"
    by (metis int_div_pos_eq)
  then show ?thesis
    by (simp add: ceiling_divide_eq_div)
qed

lemma below_count: 
  assumes "0 < step" "k < chunk_count L step"
  shows "int k * step < L"
proof -
  let ?q = "(L + step - 1) div step" and ?r = "(L + step - 1) mod step"
  have r: "0 \<le> ?r" "?r < step" using assms by simp_all
  have eq: "L + step - 1 = step * ?q + ?r" by simp
  from assms(2) have "int k + 1 \<le> ?q" by (simp add: chunk_count_def)
  then have "step * (int k + 1) \<le> step * ?q" using assms(1) by simp
  then have "int k * step + step \<le> step * ?q" by (simp add: algebra_simps)
  then show ?thesis using r eq by linarith
qed

lemma above_count: 
  assumes "0 < step" "0 \<le> L"
  shows "L \<le> int (chunk_count L step) * step"
proof -
  let ?q = "(L + step - 1) div step" and ?r = "(L + step - 1) mod step"
  have r: "0 \<le> ?r" "?r < step" using assms by simp_all
  have eq: "L + step - 1 = step * ?q + ?r" by simp
  have "0 \<le> ?q" using assms by (simp add: pos_imp_zdiv_nonneg_iff)
  then have "int (chunk_count L step) = ?q" by (simp add: chunk_count_def)
  moreover have "L \<le> step * ?q" using eq r by linarith
  ultimately show ?thesis by (simp add: mult.commute)
qed


lemma segment_closed:
  assumes "0 < W"
  shows "segment L W = Inr (map (window L (W * 1000)) [0..<chunk_count L (W * 1000)])"
  using assms
  by (simp add: segment_def py_range_def range_up_closed chunk_count_def window_def Let_def)

lemma window_start:
  assumes "0 < step" "k < chunk_count L step"
  shows "start_ms (window L step k) = int k * step"
  using below_count [OF assms] by (simp add: window_def slice_def)

lemma window_full:
  assumes "0 < step" "Suc k < chunk_count L step"
  shows "duration_ms (window L step k) = step"
proof -
  have "int (Suc k) * step < L" using assms by (rule below_count)
  then have "int k * step + step < L" by (simp add: algebra_simps)
  moreover have "int k * step < L" using assms by (intro below_count) simp_all
  ultimately show ?thesis by (simp add: window_def slice_def)
qed

lemma window_last:
  assumes "0 < step" "0 \<le> L" "chunk_count L step = Suc k"
  shows "start_ms (window L step k) + duration_ms (window L step k) = L"
    and "0 < duration_ms (window L step k)"
    and "duration_ms (window L step k) \<le> step"
proof -
  have lt: "int k * step < L" using assms by (intro below_count) simp_all
  have "L \<le> int (Suc k) * step" using above_count [OF assms(1,2)] assms(3) by simp
  then have ge: "L \<le> int k * step + step" by (simp add: algebra_simps)
  show "start_ms (window L step k) + duration_ms (window L step k) = L"
    using lt ge by (simp add: window_def slice_def)
  show "0 < duration_ms (window L step k)"
    using lt ge by (simp add: window_def slice_def)
  show "duration_ms (window L step k) \<le> step"
    using lt ge by (simp add: window_def slice_def)
qed

lemma window_telescope:
  "sum_list (map (\<lambda>k. duration_ms (window L step k)) [0..<m]) = min (int m * step) L - min 0 L"
  by (induction m) (simp_all add: window_def slice_def algebra_simps)

lemma window_sum:
  assumes "0 < step" "0 \<le> L"
  shows "sum_list (map duration_ms (map (window L step) [0..<chunk_count L step])) = L"
proof -
  have "sum_list (map duration_ms (map (window L step) [0..<chunk_count L step]))
        = min (int (chunk_count L step) * step) L - min 0 L"
    using window_telescope [of L step "chunk_count L step"] by (simp add: comp_def)
  then show ?thesis using above_count [OF assms] assms(2) by simp
qed

text \<open>
  Claim C7. An audio of \<open>L\<close> milliseconds, cut with a window of \<open>W\<close> seconds (\<open>W\<close>
  positive), gives \<open>ceil(D / W)\<close> chunks for the duration \<open>D = L / 1000\<close> seconds. The
  durations of the chunks add up to \<open>L\<close>; the start offsets increase strictly; every
  chunk but the last lasts the whole window and ends where the next one starts; the
  first chunk starts at 0, and the last one ends at \<open>L\<close>, is not empty and is no longer
  than the window.
\<close>

theorem segment_windows:
  assumes "0 < W" and "0 \<le> L"
  shows "\<exists>chunks. segment L W = Inr chunks
    \<and> int (length chunks) = \<lceil>(of_int L / 1000 :: rat) / of_int W\<rceil>
    \<and> sum_list (map duration_ms chunks) = L
    \<and> sorted_wrt (<) (map start_ms chunks)
    \<and> (\<forall>k. Suc k < length chunks \<longrightarrow>
          duration_ms (chunks ! k) = W * 1000
          \<and> start_ms (chunks ! k) + duration_ms (chunks ! k) = start_ms (chunks ! Suc k))
    \<and> (chunks \<noteq> [] \<longrightarrow>
          start_ms (hd chunks) = 0
          \<and> start_ms (last chunks) + duration_ms (last chunks) = L
          \<and> 0 < duration_ms (last chunks) \<and> duration_ms (last chunks) \<le> W * 1000)"
proof -
  define step where "step = W * 1000"
  define n where "n = chunk_count L step"
  define chunks where "chunks = map (window L step) [0..<n]"
  have step: "0 < step" using assms(1) by (simp add: step_def)
  have seg: "segment L W = Inr chunks"
    using segment_closed [OF assms(1)] by (simp add: chunks_def n_def step_def)
  have len: "length chunks = n" by (simp add: chunks_def)
  have nth: "chunks ! k = window L step k" if "k < n" for k
    using that by (simp add: chunks_def)
  have "0 \<le> (L + step - 1) div step"
    using step assms(2) by (simp add: pos_imp_zdiv_nonneg_iff)
  then have "int n = (L + step - 1) div step"
    by (simp add: n_def chunk_count_def)
  also have "\<dots> = \<lceil>(of_int L :: rat) / of_int step\<rceil>"
    using ceil_div [OF step] by simp
  also have "\<dots> = \<lceil>(of_int L / 1000 :: rat) / of_int W\<rceil>"
    by (simp add: step_def mult.commute)
  finally have count: "int (length chunks) = \<lceil>(of_int L / 1000 :: rat) / of_int W\<rceil>"
    by (simp add: len)
  have total: "sum_list (map duration_ms chunks) = L"
    using window_sum [OF step assms(2)] by (simp add: chunks_def n_def)
  have starts: "map start_ms chunks = map (\<lambda>k. int k * step) [0..<n]"
    by (simp add: chunks_def n_def window_start [OF step])
  have "sorted_wrt (<) (map (\<lambda>k. int k * step) [0..<n])"
    using step by (simp add: sorted_wrt_map sorted_wrt_iff_nth_less)
  then have incr: "sorted_wrt (<) (map start_ms chunks)"
    by (simp add: starts)
  have adj: "duration_ms (chunks ! k) = W * 1000
          \<and> start_ms (chunks ! k) + duration_ms (chunks ! k) = start_ms (chunks ! Suc k)"
    if "Suc k < length chunks" for k
  proof -
    from that have k: "Suc k < n" "k < n" by (simp_all add: len)
    have "duration_ms (chunks ! k) = step"
      using window_full [OF step] k by (simp add: nth n_def)
    moreover have "start_ms (chunks ! k) = int k * step"
      using window_start [OF step] k by (simp add: nth n_def)
    moreover have "start_ms (chunks ! Suc k) = int (Suc k) * step"
      using window_start [OF step, of "Suc k" L] k by (simp add: nth n_def)
    ultimately show ?thesis by (simp add: step_def algebra_simps)
  qed
  have ends: "start_ms (hd chunks) = 0
          \<and> start_ms (last chunks) + duration_ms (last chunks) = L
          \<and> 0 < duration_ms (last chunks) \<and> duration_ms (last chunks) \<le> W * 1000"
    if "chunks \<noteq> []"
  proof -
    from that obtain k where k: "n = Suc k" by (cases n) (simp_all add: chunks_def)
    have "hd chunks = chunks ! 0" using that by (simp add: hd_conv_nth)
    then have "start_ms (hd chunks) = 0"
      using window_start [OF step, of 0 L] k by (simp add: nth n_def)
    moreover have "last chunks = window L step k"
      using that k by (simp add: last_conv_nth len nth)
    ultimately show ?thesis
      using window_last [OF step assms(2), of k] k by (simp add: n_def step_def)
  qed
  from seg count total incr adj ends show ?thesis by blast
qed

theorem segment_windows_witness:
  "(0::int) < 50 \<and> (0::int) \<le> 125000
   \<and> (\<exists>chunks. segment 125000 50 = Inr chunks \<and> length chunks = 3
        \<and> sum_list (map duration_ms chunks) = 125000
        \<and> sorted_wrt (<) (map start_ms chunks)
        \<and> start_ms (hd chunks) = 0 \<and> duration_ms (last chunks) = 25000)"
proof -
  have h: "(0::int) < 50" "(0::int) \<le> 125000" by simp_all
  have c: "segment 125000 50 = Inr [\<lparr>start_ms = 0, duration_ms = 50000\<rparr>,
      \<lparr>start_ms = 50000, duration_ms = 50000\<rparr>, \<lparr>start_ms = 100000, duration_ms = 25000\<rparr>]"
    by (simp add: segment_def py_range_def range_up.simps slice_def)
  from segment_windows [OF h] c show ?thesis by simp
qed

section \<open>The comparison report: properties\<close>

lemma card_inter_le_max: "card (set a \<inter> set b) \<le> max (max (card (set a)) (card (set b))) 1"
proof -
  have "card (set a \<inter> set b) \<le> card (set a)"
    by (rule card_mono) simp_all
  then show ?thesis by simp
qed

lemma similarity_pct_value:
  "similarity_pct a b =
     Inr (of_nat (card (set a \<inter> set b))
          / of_nat (max (max (card (set a)) (card (set b))) 1) * 100)"
proof -
  have "1 \<le> max (max (card (set a)) (card (set b))) 1" by simp
  then have "rat_of_nat (max (max (card (set a)) (card (set b))) 1) \<noteq> 0"
    by simp
  then show ?thesis
    by (simp add: similarity_pct_def py_truediv_def Let_def)
qed

text \<open>
  Claim C10. For every two transcripts the divisor of the similarity is at least 1, the
  computation returns a value (it does not raise \<open>ZeroDivisionError\<close>), and the
  percentage lies between 0 and 100.
\<close>

theorem similarity_total_and_bounded:
  "1 \<le> max (max (card (set a)) (card (set b))) 1
   \<and> (\<exists>pct. similarity_pct a b = Inr pct \<and> 0 \<le> pct \<and> pct \<le> 100)"
proof -
  define m where "m = max (max (card (set a)) (card (set b))) 1"
  define c where "c = card (set a \<inter> set b)"
  define q :: rat where "q = of_nat c / of_nat m"
  have m: "1 \<le> m" by (simp add: m_def)
  then have m0: "(0::rat) < of_nat m" by simp
  have "c \<le> m" using card_inter_le_max [of a b] by (simp add: c_def m_def)
  then have "(of_nat c :: rat) \<le> of_nat m" by (simp only: of_nat_le_iff)
  then have q1: "q \<le> 1" using m0 by (simp only: q_def divide_le_eq_1_pos)
  have q0: "0 \<le> q" by (simp add: q_def)
  have "similarity_pct a b = Inr (q * 100)"
    by (simp only: similarity_pct_value q_def c_def m_def)
  moreover have "0 \<le> q * 100" using q0 by simp
  moreover have "q * 100 \<le> 100" using q1 by simp
  ultimately show ?thesis using m by (auto simp: m_def)
qed

theorem similarity_total_and_bounded_witness:
  "similarity_pct [] [] = Inr 0 \<and> similarity_pct (asc ''abc'') (asc ''abd'') = Inr (200 / 3)"
proof -
  have "similarity_pct (asc ''abc'') (asc ''abd'') = Inr (200 / 3)"
    by (simp add: similarity_pct_def py_truediv_def asc_def Let_def)
  moreover have "similarity_pct [] [] = Inr 0"
    by (simp add: similarity_pct_def py_truediv_def)
  ultimately show ?thesis using similarity_total_and_bounded [of "[]" "[]"] by simp
qed






















section \<open>The recognizer path: properties\<close>

lemma strip_Nil_iff: "strip xs = [] \<longleftrightarrow> (\<forall>c \<in> set xs. isspace c)"
proof
  assume "strip xs = []"
  then have "dropWhile isspace (rev (dropWhile isspace xs)) = []"
    by (simp add: strip_def)
  then have a: "\<forall>c \<in> set (dropWhile isspace xs). isspace c"
    by simp
  show "\<forall>c \<in> set xs. isspace c"
  proof
    fix c assume "c \<in> set xs"
    then have "c \<in> set (takeWhile isspace xs) \<or> c \<in> set (dropWhile isspace xs)"
      by (metis Un_iff set_append takeWhile_dropWhile_id)
    then show "isspace c"
      using a by (auto dest: set_takeWhileD)
  qed
next
  assume "\<forall>c \<in> set xs. isspace c"
  then have "dropWhile isspace xs = []" by (simp only: dropWhile_eq_Nil_conv)
  then have "strip xs = rev (dropWhile isspace (rev []))" by (simp only: strip_def)
  then show "strip xs = []" by simp
qed

lemma join_keeps:
  assumes "c \<in> set (concat ts)" "\<not> isspace c"
  shows "join_transcripts ts = concat ts"
proof -
  have "strip (concat ts) \<noteq> []" using assms strip_Nil_iff by blast
  moreover have "concat ts \<noteq> []" using assms(1) by (cases "concat ts") simp_all
  ultimately show ?thesis unfolding join_transcripts_def Let_def by (simp only: simp_thms if_False)
qed

lemma join_blank:
  assumes "strip (concat ts) = []"
  shows "join_transcripts ts = NO_CONTENT"
  using assms by (simp add: join_transcripts_def Let_def)

lemma bracket_not_space: "\<not> isspace 91"
  by (simp add: isspace_def)

lemma marker_shapes:
  "chunk_quota idx = 91 # 0x7b2c # str_nat (idx + 1)
      @ [0x6bb5, 58, 32, 0x914d, 0x984d, 0x4e0d, 0x8db3, 93]"
  "chunk_failed idx = 91 # 0x7b2c # str_nat (idx + 1)
      @ [0x6bb5, 0x8fa8, 0x8b58, 0x5931, 0x6557, 93]"
  "chunk_too_large idx = 91 # 0x7b2c # str_nat (idx + 1)
      @ [0x6bb5, 0x904e, 0x5927, 0xff0c, 0x8df3, 0x904e, 93]"
  by (simp_all add: chunk_quota_def chunk_failed_def chunk_too_large_def)

lemma chunk_transcript_ok:
  assumes "export w f c = Inr n" "n \<le> max_size_bytes" "recognize w (ChunkBytes f c) = Inr rs"
  shows "chunk_transcript w f (idx, c) = concat rs"
  using assms by (simp add: chunk_transcript_def)

lemma chunk_transcript_quota:
  assumes "export w f c = Inr n" "n \<le> max_size_bytes" "recognize w (ChunkBytes f c) = Inl e"
    "py_in (asc ''quota'') (lower e)"
  shows "chunk_transcript w f (idx, c) = chunk_quota idx"
  using assms by (simp add: chunk_transcript_def)

lemma chunk_transcript_fails:
  assumes "chunk_fails w f c"
  shows "chunk_transcript w f (idx, c) \<in> {chunk_quota idx, chunk_failed idx, chunk_too_large idx}"
  using assms
  by (auto simp: chunk_fails_def chunk_transcript_def isl_def split: sum.splits)

lemma marker_has_bracket:
  assumes "m \<in> {chunk_quota idx, chunk_failed idx, chunk_too_large idx}"
  shows "hd m = 91 \<and> last m = 93 \<and> 91 \<in> set m
     \<and> (\<exists>rest. m = [91, 0x7b2c] @ str_nat (idx + 1) @ rest)"
  using assms by (auto simp: marker_shapes)

lemma stt_chunked:
  assumes "stt_client w = None" "from_file w (working_path w) = Inr len_ms"
    "\<not> (len_ms \<le> W * 1000 \<and> getsize w (working_path w) \<le> max_size_bytes)"
    "segment len_ms W = Inr chunks"
  shows "transcribe_google_stt w W = join_transcripts (chunk_transcripts w (working_path w) chunks)"
  using assms by (auto simp: transcribe_google_stt_def stt_body_def Let_def)

lemma segment_125:
  "segment 125000 50 = Inr [\<lparr>start_ms = 0, duration_ms = 50000\<rparr>,
      \<lparr>start_ms = 50000, duration_ms = 50000\<rparr>, \<lparr>start_ms = 100000, duration_ms = 25000\<rparr>]"
  by (simp add: segment_def py_range_def range_up.simps slice_def)

lemma variant_exports_ok:
  assumes "\<forall>c \<in> set chunks. \<not> isl (export w f c)"
  shows "chunk_transcripts_variant w f chunks =
     Inr (map (\<lambda>c. case recognize w (ChunkBytes f c) of Inl e \<Rightarrow> [] | Inr rs \<Rightarrow> concat rs) chunks)"
  using assms by (induction chunks) (auto simp: isl_def split: sum.splits)

lemma variant_chunked:
  assumes "stt_client w = None" "from_file w ConvertedWav = Inr len_ms"
    "segment len_ms W = Inr chunks" "\<forall>c \<in> set chunks. \<not> isl (export w ConvertedWav c)"
  shows "transcribe_google_stt_variant w W =
     (let full = concat (map (\<lambda>c. case recognize w (ChunkBytes ConvertedWav c) of
                                      Inl e \<Rightarrow> [] | Inr rs \<Rightarrow> concat rs) chunks)
      in if strip full \<noteq> [] then full else NO_CONTENT)"
  using assms variant_exports_ok [OF assms(4)]
  by (simp add: transcribe_google_stt_variant_def stt_body_variant_def Let_def)


lemma nth_chunk_transcripts:
  "i < length cs \<Longrightarrow> chunk_transcripts w f cs ! i = chunk_transcript w f (i, cs ! i)"
  by (simp add: chunk_transcripts_def nth_enumerate_eq)

lemma failed_chunk_kept:
  assumes "stt_client w = None" "from_file w (working_path w) = Inr len_ms"
    "\<not> (len_ms \<le> W * 1000 \<and> getsize w (working_path w) \<le> max_size_bytes)"
    "segment len_ms W = Inr cs" "i < length cs" "chunk_fails w (working_path w) (cs ! i)"
  shows "transcribe_google_stt w W = concat (chunk_transcripts w (working_path w) cs)"
proof -
  let ?ts = "chunk_transcripts w (working_path w) cs"
  have "?ts ! i \<in> {chunk_quota i, chunk_failed i, chunk_too_large i}"
    using assms(5,6) by (simp only: nth_chunk_transcripts chunk_transcript_fails)
  then have "91 \<in> set (?ts ! i)" using marker_has_bracket by blast
  moreover have "?ts ! i \<in> set ?ts"
    using assms(5) by (simp add: chunk_transcripts_def)
  ultimately have "91 \<in> set (concat ?ts)" by auto
  then have "join_transcripts ?ts = concat ?ts"
    using bracket_not_space by (rule join_keeps)
  then show ?thesis using stt_chunked [OF assms(1-4)] by simp
qed

lemma str_nat_small: "str_nat 1 = [49]" "str_nat 2 = [50]" "str_nat 3 = [51]"
  by (simp_all add: str_nat_def numeral_2_eq_2 numeral_3_eq_3)

lemma quota_scenario:
  assumes "stt_client w = None" "from_file w (working_path w) = Inr 125000"
    and "export w (working_path w) \<lparr>start_ms = 0, duration_ms = 50000\<rparr> = Inr n1"
      "n1 \<le> max_size_bytes"
      "recognize w (ChunkBytes (working_path w) \<lparr>start_ms = 0, duration_ms = 50000\<rparr>) = Inr r1"
    and "export w (working_path w) \<lparr>start_ms = 50000, duration_ms = 50000\<rparr> = Inr n2"
      "n2 \<le> max_size_bytes"
      "recognize w (ChunkBytes (working_path w) \<lparr>start_ms = 50000, duration_ms = 50000\<rparr>) = Inl e"
      "py_in (asc ''quota'') (lower e)"
    and "export w (working_path w) \<lparr>start_ms = 100000, duration_ms = 25000\<rparr> = Inr n3"
      "n3 \<le> max_size_bytes"
      "recognize w (ChunkBytes (working_path w) \<lparr>start_ms = 100000, duration_ms = 25000\<rparr>) = Inr r3"
  shows "transcribe_google_stt w 50 = concat r1 @ chunk_quota 1 @ concat r3"
proof -
  let ?f = "working_path w"
  let ?cs = "[\<lparr>start_ms = 0, duration_ms = 50000\<rparr>, \<lparr>start_ms = 50000, duration_ms = 50000\<rparr>,
      \<lparr>start_ms = 100000, duration_ms = 25000\<rparr>]"
  have ts: "chunk_transcripts w ?f ?cs = [concat r1, chunk_quota 1, concat r3]"
    using chunk_transcript_ok [OF assms(3,4,5), of 0]
      chunk_transcript_quota [OF assms(6,7,8,9), of 1]
      chunk_transcript_ok [OF assms(10,11,12), of 2]
    by (simp add: chunk_transcripts_def numeral_2_eq_2)
  have "91 \<in> set (concat [concat r1, chunk_quota 1, concat r3])"
    by (simp add: marker_shapes)
  then have "join_transcripts [concat r1, chunk_quota 1, concat r3]
      = concat [concat r1, chunk_quota 1, concat r3]"
    using bracket_not_space by (rule join_keeps)
  moreover have "transcribe_google_stt w 50 = join_transcripts (chunk_transcripts w ?f ?cs)"
    using assms(1,2) segment_125 by (intro stt_chunked) simp_all
  ultimately show ?thesis by (simp add: ts)
qed

lemma example_world_fields:
  "stt_client example_world = None" "from_file example_world f = Inr 125000"
  "export example_world f c = Inr 1600044" "getsize example_world f = 4000000"
  "working_path example_world = Original"
  by (simp_all add: example_world_def working_path_def check_audio_quality_def truthy_def
      asc_def)

lemma quota_world_fields:
  "stt_client quota_world = None" "from_file quota_world f = Inr 125000"
  "export quota_world f c = Inr 1600044" "working_path quota_world = Original"
  "recognize quota_world (ChunkBytes f \<lparr>start_ms = 0, duration_ms = 50000\<rparr>) = Inr [asc ''one'']"
  "recognize quota_world (ChunkBytes f \<lparr>start_ms = 50000, duration_ms = 50000\<rparr>)
     = Inl (asc ''429 Quota exceeded'')"
  "recognize quota_world (ChunkBytes f \<lparr>start_ms = 100000, duration_ms = 25000\<rparr>)
     = Inr [asc ''three'']"
  by (simp_all add: quota_world_def example_world_def working_path_def check_audio_quality_def
      truthy_def asc_def)

lemma failing_world_fields:
  "stt_client failing_world = None" "from_file failing_world f = Inr 125000"
  "export failing_world f c = Inr 1600044" "working_path failing_world = Original"
  "getsize failing_world f = 4000000"
  "recognize failing_world p = Inl (asc ''503 unavailable'')"
  by (simp_all add: failing_world_def example_world_def working_path_def check_audio_quality_def
      truthy_def asc_def)

lemma quota_message: "py_in (asc ''quota'') (lower (asc ''429 Quota exceeded''))"
  by (simp add: asc_def lower_def lower_char_def)

lemma no_quota_message: "\<not> py_in (asc ''quota'') (lower (asc ''503 unavailable''))"
  by (simp add: asc_def lower_def lower_char_def)

lemma size_ok: "1600044 \<le> max_size_bytes"
  by (simp add: max_size_bytes_def)

text \<open>
  Claim C1, as amended. An audio of 125 seconds, cut with \<open>max_chunk_duration = 50\<close>,
  gives exactly 3 chunks (50, 50 and 25 seconds). In the first pipeline file, when the
  recognizer's call for chunk 2 raises an error whose message contains "quota" and the
  calls for chunks 1 and 3 succeed, the transcript is the text of chunk 1, the marker
  "[chunk 2: quota insufficient]" and the text of chunk 3, in this order. There, every
  failed chunk contributes one of three markers, each of which starts with a bracket and
  the 1-based position of the chunk and ends with a bracket, and the transcript of a
  file with a failed chunk is the concatenation of all that the chunks contributed. In
  the second pipeline file a chunk whose recognition raises contributes the empty
  string: the counterexample is the same scenario there, whose transcript is the text
  of chunk 1 followed by the text of chunk 3.
\<close>

theorem failed_chunk_markers:
  assumes "stt_client w = None" "from_file w (working_path w) = Inr 125000"
    and "export w (working_path w) \<lparr>start_ms = 0, duration_ms = 50000\<rparr> = Inr n1"
      "n1 \<le> max_size_bytes"
      "recognize w (ChunkBytes (working_path w) \<lparr>start_ms = 0, duration_ms = 50000\<rparr>) = Inr r1"
    and "export w (working_path w) \<lparr>start_ms = 50000, duration_ms = 50000\<rparr> = Inr n2"
      "n2 \<le> max_size_bytes"
      "recognize w (ChunkBytes (working_path w) \<lparr>start_ms = 50000, duration_ms = 50000\<rparr>) = Inl e"
      "py_in (asc ''quota'') (lower e)"
    and "export w (working_path w) \<lparr>start_ms = 100000, duration_ms = 25000\<rparr> = Inr n3"
      "n3 \<le> max_size_bytes"
      "recognize w (ChunkBytes (working_path w) \<lparr>start_ms = 100000, duration_ms = 25000\<rparr>) = Inr r3"
  shows "segment 125000 50 = Inr [\<lparr>start_ms = 0, duration_ms = 50000\<rparr>,
            \<lparr>start_ms = 50000, duration_ms = 50000\<rparr>, \<lparr>start_ms = 100000, duration_ms = 25000\<rparr>]
    \<and> transcribe_google_stt w 50 = concat r1 @ chunk_quota 1 @ concat r3
    \<and> chunk_quota 1 = [91, 0x7b2c, 50, 0x6bb5, 58, 32, 0x914d, 0x984d, 0x4e0d, 0x8db3, 93]
    \<and> (chunk_fails u f c \<longrightarrow>
          chunk_transcript u f (idx, c) \<in> {chunk_quota idx, chunk_failed idx, chunk_too_large idx})
    \<and> (m \<in> {chunk_quota idx, chunk_failed idx, chunk_too_large idx} \<longrightarrow>
          hd m = 91 \<and> last m = 93 \<and> (\<exists>rest. m = [91, 0x7b2c] @ str_nat (idx + 1) @ rest))
    \<and> (stt_client u = None \<and> from_file u (working_path u) = Inr len_ms
          \<and> \<not> (len_ms \<le> W * 1000 \<and> getsize u (working_path u) \<le> max_size_bytes)
          \<and> segment len_ms W = Inr cs \<and> i < length cs
          \<and> chunk_fails u (working_path u) (cs ! i) \<longrightarrow>
          transcribe_google_stt u W = concat (chunk_transcripts u (working_path u) cs)
          \<and> chunk_transcripts u (working_path u) cs ! i
              \<in> {chunk_quota i, chunk_failed i, chunk_too_large i})
    \<and> (export u f c = Inr n \<and> recognize u (ChunkBytes f c) = Inl e' \<longrightarrow>
          chunk_transcripts_variant u f (c # cs') =
            map_sum id ((#) []) (chunk_transcripts_variant u f cs'))"
proof -
  have a: "transcribe_google_stt w 50 = concat r1 @ chunk_quota 1 @ concat r3"
    using assms by (rule quota_scenario)
  have b: "chunk_quota 1 = [91, 0x7b2c, 50, 0x6bb5, 58, 32, 0x914d, 0x984d, 0x4e0d, 0x8db3, 93]"
    using str_nat_small(2) by (simp add: chunk_quota_def numeral_2_eq_2)
  have c: "chunk_transcript u f (idx, c) \<in> {chunk_quota idx, chunk_failed idx, chunk_too_large idx}"
    if "chunk_fails u f c"
    using that by (rule chunk_transcript_fails)
  have d: "hd m = 91 \<and> last m = 93 \<and> (\<exists>rest. m = [91, 0x7b2c] @ str_nat (idx + 1) @ rest)"
    if "m \<in> {chunk_quota idx, chunk_failed idx, chunk_too_large idx}"
    using marker_has_bracket [OF that] by blast
  have e: "transcribe_google_stt u W = concat (chunk_transcripts u (working_path u) cs)
          \<and> chunk_transcripts u (working_path u) cs ! i
              \<in> {chunk_quota i, chunk_failed i, chunk_too_large i}"
    if "stt_client u = None" "from_file u (working_path u) = Inr len_ms"
      "\<not> (len_ms \<le> W * 1000 \<and> getsize u (working_path u) \<le> max_size_bytes)"
      "segment len_ms W = Inr cs" "i < length cs" "chunk_fails u (working_path u) (cs ! i)"
    using failed_chunk_kept [OF that] that(5,6)
    by (simp only: nth_chunk_transcripts chunk_transcript_fails simp_thms)
  have f: "chunk_transcripts_variant u f (c # cs') =
            map_sum id ((#) []) (chunk_transcripts_variant u f cs')"
    if "export u f c = Inr n" "recognize u (ChunkBytes f c) = Inl e'"
    using that by (simp split: sum.split)
  from segment_125 a b c d e f show ?thesis by blast
qed


theorem failed_chunk_markers_witness:
  "transcribe_google_stt quota_world 50 = asc ''one'' @ chunk_quota 1 @ asc ''three''"
proof -
  have "transcribe_google_stt quota_world 50 =
      concat [asc ''one''] @ chunk_quota 1 @ concat [asc ''three'']"
    using failed_chunk_markers [of quota_world 1600044 "[asc ''one'']" 1600044
        "asc ''429 Quota exceeded''" 1600044 "[asc ''three'']"]
    by (simp only: quota_world_fields quota_message size_ok simp_thms)
  then show ?thesis by simp
qed

theorem variant_drops_failed_chunk_counterexample:
  "transcribe_google_stt_variant quota_world 50 = asc ''onethree''"
proof -
  have "\<forall>c \<in> set [\<lparr>start_ms = 0, duration_ms = 50000\<rparr>, \<lparr>start_ms = 50000, duration_ms = 50000\<rparr>,
      \<lparr>start_ms = 100000, duration_ms = 25000\<rparr>]. \<not> isl (export quota_world ConvertedWav c)"
    by (simp add: quota_world_fields)
  from variant_chunked [OF quota_world_fields(1) quota_world_fields(2) segment_125 this]
  have "transcribe_google_stt_variant quota_world 50 =
      (if strip (asc ''one'' @ asc ''three'') \<noteq> [] then asc ''one'' @ asc ''three''
       else NO_CONTENT)"
    by (simp add: quota_world_fields Let_def)
  moreover have "strip (asc ''one'' @ asc ''three'') \<noteq> []"
    by (simp add: strip_Nil_iff asc_def isspace_def)
  ultimately show ?thesis by (simp add: asc_def)
qed

lemma all_fail_transcripts:
  assumes "\<forall>c \<in> set cs. chunk_fails w f c"
  shows "\<forall>i < length cs. chunk_transcripts w f cs ! i
           \<in> {chunk_quota i, chunk_failed i, chunk_too_large i}"
proof (intro allI impI)
  fix i assume i: "i < length cs"
  then have "chunk_fails w f (cs ! i)" using assms by simp
  then show "chunk_transcripts w f cs ! i \<in> {chunk_quota i, chunk_failed i, chunk_too_large i}"
    using i by (simp only: nth_chunk_transcripts chunk_transcript_fails)
qed

lemma strip_blank_variant:
  assumes "\<forall>c \<in> set cs. isl (recognize w (ChunkBytes f c))"
  shows "concat (map (\<lambda>c. case recognize w (ChunkBytes f c) of
                             Inl e \<Rightarrow> [] | Inr rs \<Rightarrow> concat rs) cs) = []"
  using assms by (induction cs) (auto simp: isl_def)

lemma marker_not_sentinel:
  assumes "m \<in> {chunk_quota i, chunk_failed i, chunk_too_large i}"
  shows "m @ rest \<noteq> NO_CONTENT"
  using assms by (auto simp: marker_shapes NO_CONTENT_def)

text \<open>
  Claim C2, as amended. In the chunked path of the first pipeline file and in the second
  pipeline file, when the concatenation of what the chunks contributed is empty or only
  white space, the transcript is exactly the sentinel "cannot recognize the content". In
  the second pipeline file a failed chunk contributes the empty string, so that the
  transcript is the sentinel when every chunk failed. In the first pipeline file every
  failed chunk contributes a marker, so that the transcript of a file of which every
  chunk failed (there being at least one) is the concatenation of the markers and not
  the sentinel: the counterexample is a file of three chunks that all fail.
\<close>

theorem sentinel_for_blank_transcripts:
  "(stt_client w = None \<and> from_file w (working_path w) = Inr len_ms
      \<and> \<not> (len_ms \<le> W * 1000 \<and> getsize w (working_path w) \<le> max_size_bytes)
      \<and> segment len_ms W = Inr cs
      \<and> strip (concat (chunk_transcripts w (working_path w) cs)) = [] \<longrightarrow>
      transcribe_google_stt w W = NO_CONTENT)
   \<and> (stt_client w = None \<and> from_file w (working_path w) = Inr len_ms
      \<and> \<not> (len_ms \<le> W * 1000 \<and> getsize w (working_path w) \<le> max_size_bytes)
      \<and> segment len_ms W = Inr cs \<and> cs \<noteq> []
      \<and> (\<forall>c \<in> set cs. chunk_fails w (working_path w) c) \<longrightarrow>
      transcribe_google_stt w W = concat (chunk_transcripts w (working_path w) cs)
      \<and> (\<forall>i < length cs. chunk_transcripts w (working_path w) cs ! i
              \<in> {chunk_quota i, chunk_failed i, chunk_too_large i})
      \<and> transcribe_google_stt w W \<noteq> NO_CONTENT)
   \<and> (stt_client v = None \<and> from_file v ConvertedWav = Inr len_ms
      \<and> segment len_ms W = Inr cs
      \<and> (\<forall>c \<in> set cs. \<not> isl (export v ConvertedWav c))
      \<and> strip (concat (map (\<lambda>c. case recognize v (ChunkBytes ConvertedWav c) of
                                     Inl e \<Rightarrow> [] | Inr rs \<Rightarrow> concat rs) cs)) = [] \<longrightarrow>
      transcribe_google_stt_variant v W = NO_CONTENT)
   \<and> (stt_client v = None \<and> from_file v ConvertedWav = Inr len_ms
      \<and> segment len_ms W = Inr cs
      \<and> (\<forall>c \<in> set cs. \<not> isl (export v ConvertedWav c))
      \<and> (\<forall>c \<in> set cs. isl (recognize v (ChunkBytes ConvertedWav c))) \<longrightarrow>
      transcribe_google_stt_variant v W = NO_CONTENT)"
proof -
  have a: "transcribe_google_stt w W = NO_CONTENT"
    if "stt_client w = None" "from_file w (working_path w) = Inr len_ms"
      "\<not> (len_ms \<le> W * 1000 \<and> getsize w (working_path w) \<le> max_size_bytes)"
      "segment len_ms W = Inr cs"
      "strip (concat (chunk_transcripts w (working_path w) cs)) = []"
    using stt_chunked [OF that(1-4)] join_blank [OF that(5)] by simp
  have b: "transcribe_google_stt w W = concat (chunk_transcripts w (working_path w) cs)
      \<and> (\<forall>i < length cs. chunk_transcripts w (working_path w) cs ! i
              \<in> {chunk_quota i, chunk_failed i, chunk_too_large i})
      \<and> transcribe_google_stt w W \<noteq> NO_CONTENT"
    if "stt_client w = None" "from_file w (working_path w) = Inr len_ms"
      "\<not> (len_ms \<le> W * 1000 \<and> getsize w (working_path w) \<le> max_size_bytes)"
      "segment len_ms W = Inr cs" "cs \<noteq> []"
      "\<forall>c \<in> set cs. chunk_fails w (working_path w) c"
  proof -
    let ?ts = "chunk_transcripts w (working_path w) cs"
    from that(5) have pos: "0 < length cs" by simp
    then have "chunk_fails w (working_path w) (cs ! 0)" using that(6) by simp
    from failed_chunk_kept [OF that(1-4) pos this]
    have res: "transcribe_google_stt w W = concat ?ts" .
    have all: "\<forall>i < length cs. ?ts ! i \<in> {chunk_quota i, chunk_failed i, chunk_too_large i}"
      using that(6) by (rule all_fail_transcripts)
    have "length ?ts = length cs" by (simp add: chunk_transcripts_def)
    then obtain t ts where ts: "?ts = t # ts" using pos by (cases ?ts) simp_all
    then have "t = ?ts ! 0" by simp
    then have "t \<in> {chunk_quota 0, chunk_failed 0, chunk_too_large 0}" using all pos by simp
    then have "t @ concat ts \<noteq> NO_CONTENT" by (rule marker_not_sentinel)
    then have "concat ?ts \<noteq> NO_CONTENT" by (simp add: ts)
    with res all show ?thesis by simp
  qed
  have c: "transcribe_google_stt_variant v W = NO_CONTENT"
    if "stt_client v = None" "from_file v ConvertedWav = Inr len_ms"
      "segment len_ms W = Inr cs" "\<forall>c \<in> set cs. \<not> isl (export v ConvertedWav c)"
      "strip (concat (map (\<lambda>c. case recognize v (ChunkBytes ConvertedWav c) of
                                     Inl e \<Rightarrow> [] | Inr rs \<Rightarrow> concat rs) cs)) = []"
    using variant_chunked [OF that(1-4)] that(5) by (simp add: Let_def)
  have d: "transcribe_google_stt_variant v W = NO_CONTENT"
    if "stt_client v = None" "from_file v ConvertedWav = Inr len_ms"
      "segment len_ms W = Inr cs" "\<forall>c \<in> set cs. \<not> isl (export v ConvertedWav c)"
      "\<forall>c \<in> set cs. isl (recognize v (ChunkBytes ConvertedWav c))"
  proof -
    have "strip (concat (map (\<lambda>c. case recognize v (ChunkBytes ConvertedWav c) of
                                     Inl e \<Rightarrow> [] | Inr rs \<Rightarrow> concat rs) cs)) = []"
      by (simp only: strip_blank_variant [OF that(5)]) (simp add: strip_def)
    with that(1-4) show ?thesis by (rule c)
  qed
  from a b c d show ?thesis by blast
qed

theorem sentinel_for_blank_transcripts_witness:
  "transcribe_google_stt_variant failing_world 50 = NO_CONTENT"
proof -
  let ?cs = "[\<lparr>start_ms = 0, duration_ms = 50000\<rparr>, \<lparr>start_ms = 50000, duration_ms = 50000\<rparr>,
      \<lparr>start_ms = 100000, duration_ms = 25000\<rparr>]"
  have "\<forall>c \<in> set ?cs. \<not> isl (export failing_world ConvertedWav c)"
    "\<forall>c \<in> set ?cs. isl (recognize failing_world (ChunkBytes ConvertedWav c))"
    by (simp_all add: failing_world_fields)
  then show ?thesis
    using sentinel_for_blank_transcripts [of failing_world 125000 50 ?cs failing_world]
      failing_world_fields(1,2) segment_125 by blast
qed

theorem all_chunks_failed_counterexample:
  "transcribe_google_stt failing_world 50 = chunk_failed 0 @ chunk_failed 1 @ chunk_failed 2
   \<and> transcribe_google_stt failing_world 50 \<noteq> NO_CONTENT"
proof -
  let ?cs = "[\<lparr>start_ms = 0, duration_ms = 50000\<rparr>, \<lparr>start_ms = 50000, duration_ms = 50000\<rparr>,
      \<lparr>start_ms = 100000, duration_ms = 25000\<rparr>]"
  have ts: "chunk_transcripts failing_world Original ?cs
      = [chunk_failed 0, chunk_failed 1, chunk_failed 2]"
    by (simp add: chunk_transcripts_def chunk_transcript_def failing_world_fields
        no_quota_message size_ok numeral_2_eq_2 max_size_bytes_def)
  have "\<not> ((125000::int) \<le> 50 * 1000 \<and> getsize failing_world (working_path failing_world) \<le> max_size_bytes)"
    by simp
  with failing_world_fields(1) have "transcribe_google_stt failing_world 50 =
      join_transcripts (chunk_transcripts failing_world (working_path failing_world) ?cs)"
    using segment_125 by (intro stt_chunked) (simp_all add: failing_world_fields)
  moreover have "91 \<in> set (concat [chunk_failed 0, chunk_failed 1, chunk_failed 2])"
    by (simp add: marker_shapes)
  then have "join_transcripts [chunk_failed 0, chunk_failed 1, chunk_failed 2]
      = concat [chunk_failed 0, chunk_failed 1, chunk_failed 2]"
    using bracket_not_space by (rule join_keeps)
  ultimately have r: "transcribe_google_stt failing_world 50 =
      chunk_failed 0 @ chunk_failed 1 @ chunk_failed 2"
    by (simp add: ts failing_world_fields)
  have "chunk_failed 0 @ (chunk_failed 1 @ chunk_failed 2) \<noteq> NO_CONTENT"
    by (rule marker_not_sentinel [of _ 0]) simp
  with r show ?thesis by simp
qed















section \<open>The merged document: properties\<close>



















section \<open>The main loop: properties\<close>

lemma use_dual: "use_stt MODE_DUAL" "use_gemini MODE_DUAL"
  by (simp_all add: use_stt_def use_gemini_def MODE_DUAL_def DUAL_WORD_def asc_def)

lemma process_upload_skip:
  "\<not> loaded f \<Longrightarrow> process_upload mode cd s f = s\<lparr>skipped := skipped s @ [name f]\<rparr>"
  by (auto simp: process_upload_def loaded_def Let_def split: pyfloat.splits)

lemma process_upload_append:
  "loaded f \<Longrightarrow> process_upload mode cd s f =
     append_gemini (use_gemini mode)
       \<lparr>filename = name f, datetime = extracted_datetime (world_of f),
        duration_sec = probed_seconds f, transcript = transcribe_gemini (world_of f)\<rparr>
       (append_stt (use_stt mode)
          \<lparr>filename = name f, datetime = extracted_datetime (world_of f),
           duration_sec = probed_seconds f,
           transcript = transcribe_google_stt (world_of f) cd\<rparr> s)"
  by (auto simp: process_upload_def loaded_def probed_seconds_def Let_def split: pyfloat.splits)

lemma process_upload_fields:
  "stt_records (process_upload mode cd s f) =
     stt_records s @ (if loaded f \<and> use_stt mode
        then [\<lparr>filename = name f, datetime = extracted_datetime (world_of f),
               duration_sec = probed_seconds f,
               transcript = transcribe_google_stt (world_of f) cd\<rparr>] else [])"
  "gemini_records (process_upload mode cd s f) =
     gemini_records s @ (if loaded f \<and> use_gemini mode
        then [\<lparr>filename = name f, datetime = extracted_datetime (world_of f),
               duration_sec = probed_seconds f,
               transcript = transcribe_gemini (world_of f)\<rparr>] else [])"
  "skipped (process_upload mode cd s f) = skipped s @ (if loaded f then [] else [name f])"
  by (cases "loaded f";
      simp add: process_upload_skip process_upload_append append_stt_def append_gemini_def)+

lemma loop_fields:
  "map filename (stt_records (foldl (process_upload mode cd) s files)) =
     map filename (stt_records s) @ (if use_stt mode then map name (filter loaded files) else [])"
  "map filename (gemini_records (foldl (process_upload mode cd) s files)) =
     map filename (gemini_records s) @ (if use_gemini mode then map name (filter loaded files) else [])"
  "skipped (foldl (process_upload mode cd) s files) =
     skipped s @ map name (filter (\<lambda>f. \<not> loaded f) files)"
  by (induction files arbitrary: s) (simp_all add: process_upload_fields)

lemma loop_keys:
  "use_stt mode \<Longrightarrow> use_gemini mode \<Longrightarrow>
   map datetime (stt_records s) = map datetime (gemini_records s) \<Longrightarrow>
   map datetime (stt_records (foldl (process_upload mode cd) s files)) =
   map datetime (gemini_records (foldl (process_upload mode cd) s files))"
  by (induction files arbitrary: s) (simp_all add: process_upload_fields)

lemma loop_durations:
  "list_all (\<lambda>r. format_duration (duration_sec r) \<noteq> None) (stt_records s) \<Longrightarrow>
   list_all (\<lambda>r. format_duration (duration_sec r) \<noteq> None) (gemini_records s) \<Longrightarrow>
   list_all (\<lambda>r. format_duration (duration_sec r) \<noteq> None)
     (stt_records (foldl (process_upload mode cd) s files))
   \<and> list_all (\<lambda>r. format_duration (duration_sec r) \<noteq> None)
     (gemini_records (foldl (process_upload mode cd) s files))"
proof (induction files arbitrary: s)
  case Nil
  then show ?case by simp
next
  case (Cons f files)
  have "loaded f \<Longrightarrow> format_duration (probed_seconds f) \<noteq> None"
    by (auto simp: loaded_def probed_seconds_def split: pyfloat.splits)
  then have "list_all (\<lambda>r. format_duration (duration_sec r) \<noteq> None)
       (stt_records (process_upload mode cd s f))"
    "list_all (\<lambda>r. format_duration (duration_sec r) \<noteq> None)
       (gemini_records (process_upload mode cd s f))"
    using Cons.prems by (simp_all add: process_upload_fields)
  from Cons.IH [OF this] show ?case by simp
qed

lemma insort_zip:
  assumes "length xs = length ys" "map k xs = map k' ys" "k x = k' y"
  shows "zip (insort_key k x xs) (insort_key k' y ys) = insort_key (\<lambda>p. k (fst p)) (x, y) (zip xs ys)"
  using assms by (induction xs ys rule: list_induct2) simp_all

lemma map_insort_key: "map k (insort_key k x xs) = insort (k x) (map k xs)"
  by (induction xs) simp_all

lemma map_sort_key: "map k (sort_key k xs) = sort (map k xs)"
  by (induction xs) (simp_all add: map_insort_key)

lemma sort_zip:
  assumes "length xs = length ys" "map k xs = map k' ys"
  shows "zip (sort_key k xs) (sort_key k' ys) = sort_key (\<lambda>p. k (fst p)) (zip xs ys)"
  using assms
proof (induction xs ys rule: list_induct2)
  case Nil
  show ?case by simp
next
  case (Cons x xs y ys)
  from Cons.prems have keys: "k x = k' y" "map k xs = map k' ys" by simp_all
  have ih: "zip (sort_key k xs) (sort_key k' ys) = sort_key (\<lambda>p. k (fst p)) (zip xs ys)"
    using Cons.IH keys(2) by simp
  have len: "length (sort_key k xs) = length (sort_key k' ys)"
    using Cons.hyps by simp
  have "map k (sort_key k xs) = map k' (sort_key k' ys)"
    using keys(2) by (simp add: map_sort_key)
  from insort_zip [OF len this keys(1)] ih show ?case by simp
qed

lemma sort_aligned:
  assumes "length xs = length ys" "map k xs = map k ys" "map f xs = map f ys"
  shows "map f (sort_key k xs) = map f (sort_key k ys)"
proof -
  let ?z = "sort_key (\<lambda>p. k (fst p)) (zip xs ys)"
  have z: "zip (sort_key k xs) (sort_key k ys) = ?z"
    using assms(1,2) by (rule sort_zip)
  have len: "length (sort_key k xs) = length (sort_key k ys)" using assms(1) by simp
  have "\<forall>p \<in> set (zip xs ys). f (fst p) = f (snd p)"
    using assms(1,3) by (induction xs ys rule: list_induct2) auto
  then have "\<forall>p \<in> set ?z. f (fst p) = f (snd p)" by simp
  then have "map (\<lambda>p. f (fst p)) ?z = map (\<lambda>p. f (snd p)) ?z" by simp
  moreover have "map (\<lambda>p. f (fst p)) ?z = map f (map fst ?z)" by simp
  moreover have "map (\<lambda>p. f (snd p)) ?z = map f (map snd ?z)" by simp
  moreover have "map fst ?z = sort_key k xs" using len by (simp flip: z)
  moreover have "map snd ?z = sort_key k ys" using len by (simp flip: z)
  ultimately show ?thesis by simp
qed








lemma variant_step:
  assumes "ffmpeg_ran f"
  shows "\<exists>s'. process_upload_variant mode cd s f = Inr s'
     \<and> map filename (stt_records s') =
         map filename (stt_records s) @ (if converted_ok f \<and> use_stt mode then [name f] else [])
     \<and> map filename (gemini_records s') =
         map filename (gemini_records s) @ (if converted_ok f \<and> use_gemini mode then [name f] else [])
     \<and> skipped s' = skipped s @ (if converted_ok f then [] else [name f])"
proof (cases "ffmpeg (world_of f) (asc ''wav'')")
  case (Exit returncode stderr)
  then show ?thesis
    by (simp add: process_upload_variant_def converted_ok_def Let_def append_stt_def
        append_gemini_def)
next
  case TimeoutExpired
  with assms show ?thesis by (simp add: ffmpeg_ran_def)
next
  case (RunRaised e)
  with assms show ?thesis by (simp add: ffmpeg_ran_def)
qed

lemma variant_loop:
  assumes "list_all ffmpeg_ran files"
  shows "\<exists>s'. main_loop_variant mode cd s files = Inr s'
     \<and> map filename (stt_records s') =
         map filename (stt_records s) @ (if use_stt mode then map name (filter converted_ok files) else [])
     \<and> map filename (gemini_records s') =
         map filename (gemini_records s) @ (if use_gemini mode then map name (filter converted_ok files) else [])
     \<and> skipped s' = skipped s @ map name (filter (\<lambda>f. \<not> converted_ok f) files)"
  using assms
proof (induction files arbitrary: s)
  case Nil
  show ?case by simp
next
  case (Cons f files)
  then have f: "ffmpeg_ran f" and rest: "list_all ffmpeg_ran files" by simp_all
  from variant_step [OF f, of mode cd s] obtain s1 where
    s1: "process_upload_variant mode cd s f = Inr s1"
        "map filename (stt_records s1) =
           map filename (stt_records s) @ (if converted_ok f \<and> use_stt mode then [name f] else [])"
        "map filename (gemini_records s1) =
           map filename (gemini_records s) @ (if converted_ok f \<and> use_gemini mode then [name f] else [])"
        "skipped s1 = skipped s @ (if converted_ok f then [] else [name f])"
    by blast
  from Cons.IH [OF rest, of s1] obtain s' where
    s': "main_loop_variant mode cd s1 files = Inr s'"
        "map filename (stt_records s') =
           map filename (stt_records s1) @ (if use_stt mode then map name (filter converted_ok files) else [])"
        "map filename (gemini_records s') =
           map filename (gemini_records s1) @ (if use_gemini mode then map name (filter converted_ok files) else [])"
        "skipped s' = skipped s1 @ map name (filter (\<lambda>f. \<not> converted_ok f) files)"
    by blast
  show ?case using s1 s' by simp
qed



lemma modes_bound_iff:
  assumes "list_all ffmpeg_ran files"
  shows "modes_bound bound files = (bound \<or> list_ex converted_ok files)"
  using assms
  by (induction files arbitrary: bound)
     (auto simp: ffmpeg_ran_def converted_ok_def split: ffmpeg_run.splits)







lemma variant_no_conversion:
  assumes "files \<noteq> []" "list_all ffmpeg_ran files" "\<not> list_ex converted_ok files"
  shows "run_app_variant mode cd now files = Inl name_error"
proof -
  from variant_loop [OF assms(2), of mode cd initial_state] obtain s where
    "main_loop_variant mode cd initial_state files = Inr s" by blast
  moreover have "\<not> modes_bound False files"
    using assms(2,3) by (simp add: modes_bound_iff)
  ultimately show ?thesis using assms(1) by (simp add: run_app_variant_def)
qed

lemma example_loaded:
  "loaded (example_upload n)" "\<not> loaded (unreadable_upload n)"
  "\<not> loaded (overlong_upload n)" "loaded (unconverted_upload n)"
  by (simp_all add: loaded_def example_upload_def unreadable_upload_def overlong_upload_def
      unconverted_upload_def example_world_def get_audio_info_def format_duration_def
      py_int_def)


lemma example_names:
  "name (example_upload n) = asc n" "name (unreadable_upload n) = asc n"
  "name (overlong_upload n) = asc n" "name (unconverted_upload n) = asc n"
  by (simp_all add: example_upload_def unreadable_upload_def overlong_upload_def
      unconverted_upload_def)







text \<open>
  Claim C9. In dual mode, an iteration that gets past the \<open>try\<close> of the duration probe
  appends exactly one record to the STT list and exactly one to the Gemini list, both
  for the uploaded file of the iteration and with the same time and duration; an
  iteration that does not get past it (a duration of 0, or a status line that raises)
  appends nothing. After the loop the two lists have the same length and the same file
  names at the same indices, those of the uploads that got past the probe. This also
  holds once \<open>generate_merged_content\<close> has sorted each list in place, which is how the
  comparison step receives them.
\<close>

theorem dual_mode_alignment:
  "(if loaded f
    then \<exists>r g. process_upload MODE_DUAL cd s f =
                 s\<lparr>stt_records := stt_records s @ [r], gemini_records := gemini_records s @ [g]\<rparr>
            \<and> filename r = name f \<and> filename g = name f
            \<and> datetime r = datetime g \<and> duration_sec r = duration_sec g
    else process_upload MODE_DUAL cd s f = s\<lparr>skipped := skipped s @ [name f]\<rparr>)
   \<and> length (stt_records (main_loop MODE_DUAL cd files)) =
       length (gemini_records (main_loop MODE_DUAL cd files))
   \<and> map filename (stt_records (main_loop MODE_DUAL cd files)) =
       map filename (gemini_records (main_loop MODE_DUAL cd files))
   \<and> map filename (stt_records (main_loop MODE_DUAL cd files)) = map name (filter loaded files)
   \<and> map filename (sort_records (stt_records (main_loop MODE_DUAL cd files))) =
       map filename (sort_records (gemini_records (main_loop MODE_DUAL cd files)))"
proof -
  let ?s = "main_loop MODE_DUAL cd files"
  have step: "if loaded f
    then \<exists>r g. process_upload MODE_DUAL cd s f =
                 s\<lparr>stt_records := stt_records s @ [r], gemini_records := gemini_records s @ [g]\<rparr>
            \<and> filename r = name f \<and> filename g = name f
            \<and> datetime r = datetime g \<and> duration_sec r = duration_sec g
    else process_upload MODE_DUAL cd s f = s\<lparr>skipped := skipped s @ [name f]\<rparr>"
  proof (cases "loaded f")
    case False
    then show ?thesis by (simp add: process_upload_skip)
  next
    case True
    let ?r = "\<lparr>filename = name f, datetime = extracted_datetime (world_of f),
               duration_sec = probed_seconds f,
               transcript = transcribe_google_stt (world_of f) cd\<rparr>"
    let ?g = "\<lparr>filename = name f, datetime = extracted_datetime (world_of f),
               duration_sec = probed_seconds f,
               transcript = transcribe_gemini (world_of f)\<rparr>"
    have "process_upload MODE_DUAL cd s f =
            s\<lparr>stt_records := stt_records s @ [?r], gemini_records := gemini_records s @ [?g]\<rparr>"
      using True
      by (simp add: process_upload_append append_stt_def append_gemini_def use_dual)
    moreover have "filename ?r = name f \<and> filename ?g = name f
            \<and> datetime ?r = datetime ?g \<and> duration_sec ?r = duration_sec ?g"
      by simp
    ultimately show ?thesis using True by (simp only: if_True) blast
  qed
  have names: "map filename (stt_records ?s) = map name (filter loaded files)"
    "map filename (gemini_records ?s) = map name (filter loaded files)"
    by (simp_all add: main_loop_def loop_fields initial_state_def use_dual)
  then have eq: "map filename (stt_records ?s) = map filename (gemini_records ?s)" by simp
  then have len: "length (stt_records ?s) = length (gemini_records ?s)"
    by (rule map_eq_imp_length_eq)
  have keys: "map datetime (stt_records ?s) = map datetime (gemini_records ?s)"
    unfolding main_loop_def by (rule loop_keys) (simp_all add: use_dual initial_state_def)
  have "map filename (sort_records (stt_records ?s)) =
       map filename (sort_records (gemini_records ?s))"
    unfolding sort_records_def using len keys eq by (rule sort_aligned)
  with step names eq len show ?thesis by simp
qed

theorem dual_mode_alignment_witness:
  "length (stt_records (main_loop MODE_DUAL 50
       [example_upload ''a.wav'', unreadable_upload ''b.wav'', overlong_upload ''c.wav'',
        example_upload ''d.wav''])) = 2
   \<and> map filename (gemini_records (main_loop MODE_DUAL 50
       [example_upload ''a.wav'', unreadable_upload ''b.wav'', overlong_upload ''c.wav'',
        example_upload ''d.wav''])) = [asc ''a.wav'', asc ''d.wav'']"
proof -
  let ?fs = "[example_upload ''a.wav'', unreadable_upload ''b.wav'', overlong_upload ''c.wav'',
        example_upload ''d.wav'']"
  let ?s = "main_loop MODE_DUAL 50 ?fs"
  from dual_mode_alignment [of "example_upload ''a.wav''" 50 initial_state ?fs]
  have b: "map filename (stt_records ?s) = map filename (gemini_records ?s)"
    and c: "map filename (stt_records ?s) = map name (filter loaded ?fs)"
    by blast+
  have d: "map name (filter loaded ?fs) = [asc ''a.wav'', asc ''d.wav'']"
    by (simp add: example_loaded example_names)
  from c d have "length (map filename (stt_records ?s)) = 2" by simp
  then have "length (stt_records ?s) = 2" by simp
  with b c d show ?thesis by simp
qed

end
